theory Spec2Isabelle
  imports Complex_Main "HOL-Library.Multiset"
begin

section \<open>Numbers and the Math library\<close>

text \<open>
  JavaScript numbers are IEEE-754 doubles. The file reads them in two ways.

  In the first reading, used for the admission rule and for the comparison of the three
  copies of the distance routine, coordinates and distances are the real numbers that
  the doubles approximate and every operation of the source is the exact operation on
  \<^typ>\<open>real\<close>: \<open>Math.PI\<close>, \<open>Math.sin\<close>, \<open>Math.cos\<close> and \<open>Math.sqrt\<close> are \<^term>\<open>pi\<close>, \<^term>\<open>sin\<close>,
  \<^term>\<open>cos\<close> and \<^term>\<open>sqrt\<close>, and \<open>Math.atan2 y x\<close> is the angle of the point \<open>(x, y)\<close> in
  \<open>(-pi, pi]\<close>, by the case table of ECMAScript. \<open>Math.sqrt\<close> is NaN on a negative
  argument where \<^term>\<open>sqrt\<close> is not; in exact arithmetic the distance routine never
  calls it there (lemma \<open>haversine_a_range\<close>).

  In the second reading (section \<open>The arithmetic of the runtime\<close>) a number is a real or
  NaN, every operation rounds its exact result as the runtime does, \<open>Math.sqrt\<close> of a
  negative number is NaN and an operation with a NaN operand is NaN. The first reading
  is the second one at the runtime that does not round (lemma
  \<open>calculateDistance_in_exact\<close>).
\<close>

definition Math_atan2 :: "real \<Rightarrow> real \<Rightarrow> real" where
  "Math_atan2 y x =
     (if 0 < x then arctan (y / x)
      else if x < 0 then (if 0 \<le> y then arctan (y / x) + pi else arctan (y / x) - pi)
      else if 0 < y then pi / 2
      else if y < 0 then - (pi / 2)
      else 0)"

section \<open>The distance routine, once per file that declares it\<close>

text \<open>
  \<open>calculateDistance\<close> of \<open>pages/Dashboard.tsx\<close> (lines 109-119), statement by statement.
\<close>

definition calculateDistance :: "real \<Rightarrow> real \<Rightarrow> real \<Rightarrow> real \<Rightarrow> real" where
  "calculateDistance lat1 lon1 lat2 lon2 =
     (let R = 6371;
          dLat = (lat2 - lat1) * pi / 180;
          dLon = (lon2 - lon1) * pi / 180;
          a = sin (dLat / 2) * sin (dLat / 2) +
              cos (lat1 * pi / 180) * cos (lat2 * pi / 180) *
              sin (dLon / 2) * sin (dLon / 2);
          c = 2 * Math_atan2 (sqrt a) (sqrt (1 - a))
      in R * c)"

text \<open>\<open>calculateDistance\<close> of \<open>components/HazardList.tsx\<close> (lines 14-24).\<close>

definition HazardList_calculateDistance :: "real \<Rightarrow> real \<Rightarrow> real \<Rightarrow> real \<Rightarrow> real" where
  "HazardList_calculateDistance lat1 lon1 lat2 lon2 =
     (let R = 6371;
          dLat = (lat2 - lat1) * pi / 180;
          dLon = (lon2 - lon1) * pi / 180;
          a = sin (dLat / 2) * sin (dLat / 2) +
              cos (lat1 * pi / 180) * cos (lat2 * pi / 180) *
              sin (dLon / 2) * sin (dLon / 2);
          c = 2 * Math_atan2 (sqrt a) (sqrt (1 - a))
      in R * c)"

text \<open>\<open>calculateDistance\<close> of \<open>components/HazardMap.tsx\<close> (lines 93-103).\<close>

definition HazardMap_calculateDistance :: "real \<Rightarrow> real \<Rightarrow> real \<Rightarrow> real \<Rightarrow> real" where
  "HazardMap_calculateDistance lat1 lon1 lat2 lon2 =
     (let R = 6371;
          dLat = (lat2 - lat1) * pi / 180;
          dLon = (lon2 - lon1) * pi / 180;
          a = sin (dLat / 2) * sin (dLat / 2) +
              cos (lat1 * pi / 180) * cos (lat2 * pi / 180) *
              sin (dLon / 2) * sin (dLon / 2);
          c = 2 * Math_atan2 (sqrt a) (sqrt (1 - a))
      in R * c)"

text \<open>
  The formula as the specification words it: coordinates are converted from degrees to
  radians, \<open>a = sin\<^sup>2(\<Delta>lat/2) + cos(lat1) cos(lat2) sin\<^sup>2(\<Delta>lon/2)\<close> and the distance is
  \<open>2 R atan2(\<surd>a, \<surd>(1-a))\<close> with \<open>R = 6371\<close>.
\<close>

definition radians :: "real \<Rightarrow> real" where
  "radians d = d * pi / 180"

definition haversine_a :: "real \<Rightarrow> real \<Rightarrow> real \<Rightarrow> real \<Rightarrow> real" where
  "haversine_a lat1 lon1 lat2 lon2 =
     (sin ((radians lat2 - radians lat1) / 2))\<^sup>2 +
     cos (radians lat1) * cos (radians lat2) * (sin ((radians lon2 - radians lon1) / 2))\<^sup>2"

definition haversine_spec :: "real \<Rightarrow> real \<Rightarrow> real \<Rightarrow> real \<Rightarrow> real" where
  "haversine_spec lat1 lon1 lat2 lon2 =
     2 * 6371 * Math_atan2 (sqrt (haversine_a lat1 lon1 lat2 lon2))
                           (sqrt (1 - haversine_a lat1 lon1 lat2 lon2))"

section \<open>The arithmetic of the runtime\<close>

text \<open>
  A number is a real or NaN. The infinities and the sign of zero are not modelled: the
  distance routine divides by 180 and by 2 only, and coordinates in degrees are far
  from overflow.
\<close>

datatype number = Num real | NaN

text \<open>
  What the runtime contributes: how the exact result of \<open>+\<close>, \<open>-\<close>, \<open>*\<close>, \<open>/\<close> and
  \<open>Math.sqrt\<close> is rounded to a double, the functions \<open>Math.sin\<close>, \<open>Math.cos\<close> and
  \<open>Math.atan2\<close> on doubles (ECMAScript leaves their values to the implementation), and
  the double \<open>Math.PI\<close>.
\<close>

record runtime =
  rt_round :: "real \<Rightarrow> real"
  rt_sin :: "real \<Rightarrow> real"
  rt_cos :: "real \<Rightarrow> real"
  rt_atan2 :: "real \<Rightarrow> real \<Rightarrow> real"
  rt_PI :: real

fun num_add :: "runtime \<Rightarrow> number \<Rightarrow> number \<Rightarrow> number" where
  "num_add rt (Num x) (Num y) = Num (rt_round rt (x + y))"
| "num_add rt _ _ = NaN"

fun num_sub :: "runtime \<Rightarrow> number \<Rightarrow> number \<Rightarrow> number" where
  "num_sub rt (Num x) (Num y) = Num (rt_round rt (x - y))"
| "num_sub rt _ _ = NaN"

fun num_mul :: "runtime \<Rightarrow> number \<Rightarrow> number \<Rightarrow> number" where
  "num_mul rt (Num x) (Num y) = Num (rt_round rt (x * y))"
| "num_mul rt _ _ = NaN"

fun num_div :: "runtime \<Rightarrow> number \<Rightarrow> number \<Rightarrow> number" where
  "num_div rt (Num x) (Num y) = (if y = 0 then NaN else Num (rt_round rt (x / y)))"
| "num_div rt _ _ = NaN"

fun num_sqrt :: "runtime \<Rightarrow> number \<Rightarrow> number" where
  "num_sqrt rt (Num x) = (if x < 0 then NaN else Num (rt_round rt (sqrt x)))"
| "num_sqrt rt NaN = NaN"

fun num_sin :: "runtime \<Rightarrow> number \<Rightarrow> number" where
  "num_sin rt (Num x) = Num (rt_sin rt x)"
| "num_sin rt NaN = NaN"

fun num_cos :: "runtime \<Rightarrow> number \<Rightarrow> number" where
  "num_cos rt (Num x) = Num (rt_cos rt x)"
| "num_cos rt NaN = NaN"

fun num_atan2 :: "runtime \<Rightarrow> number \<Rightarrow> number \<Rightarrow> number" where
  "num_atan2 rt (Num y) (Num x) = Num (rt_atan2 rt y x)"
| "num_atan2 rt _ _ = NaN"

text \<open>The comparison \<open><=\<close> of JavaScript: false when an operand is NaN.\<close>

fun number_le :: "number \<Rightarrow> number \<Rightarrow> bool" where
  "number_le (Num x) (Num y) = (x \<le> y)"
| "number_le _ _ = False"

text \<open>
  \<open>calculateDistance\<close> of \<open>pages/Dashboard.tsx\<close> (lines 109-119) in the arithmetic of the
  runtime, statement by statement; a product of four factors is evaluated from the
  left. The literals 6371, 180, 2 and 1 are doubles.
\<close>

definition calculateDistance_in ::
  "runtime \<Rightarrow> number \<Rightarrow> number \<Rightarrow> number \<Rightarrow> number \<Rightarrow> number" where
  "calculateDistance_in rt lat1 lon1 lat2 lon2 =
     (let R = Num 6371;
          dLat = num_div rt (num_mul rt (num_sub rt lat2 lat1) (Num (rt_PI rt))) (Num 180);
          dLon = num_div rt (num_mul rt (num_sub rt lon2 lon1) (Num (rt_PI rt))) (Num 180);
          a = num_add rt
                (num_mul rt (num_sin rt (num_div rt dLat (Num 2)))
                            (num_sin rt (num_div rt dLat (Num 2))))
                (num_mul rt
                   (num_mul rt
                      (num_mul rt
                         (num_cos rt (num_div rt (num_mul rt lat1 (Num (rt_PI rt))) (Num 180)))
                         (num_cos rt (num_div rt (num_mul rt lat2 (Num (rt_PI rt))) (Num 180))))
                      (num_sin rt (num_div rt dLon (Num 2))))
                   (num_sin rt (num_div rt dLon (Num 2))));
          c = num_mul rt (Num 2)
                (num_atan2 rt (num_sqrt rt a) (num_sqrt rt (num_sub rt (Num 1) a)))
      in num_mul rt R c)"

text \<open>\<open>calculateDistance\<close> of \<open>components/HazardList.tsx\<close> (lines 14-24), likewise.\<close>

definition HazardList_calculateDistance_in ::
  "runtime \<Rightarrow> number \<Rightarrow> number \<Rightarrow> number \<Rightarrow> number \<Rightarrow> number" where
  "HazardList_calculateDistance_in rt lat1 lon1 lat2 lon2 =
     (let R = Num 6371;
          dLat = num_div rt (num_mul rt (num_sub rt lat2 lat1) (Num (rt_PI rt))) (Num 180);
          dLon = num_div rt (num_mul rt (num_sub rt lon2 lon1) (Num (rt_PI rt))) (Num 180);
          a = num_add rt
                (num_mul rt (num_sin rt (num_div rt dLat (Num 2)))
                            (num_sin rt (num_div rt dLat (Num 2))))
                (num_mul rt
                   (num_mul rt
                      (num_mul rt
                         (num_cos rt (num_div rt (num_mul rt lat1 (Num (rt_PI rt))) (Num 180)))
                         (num_cos rt (num_div rt (num_mul rt lat2 (Num (rt_PI rt))) (Num 180))))
                      (num_sin rt (num_div rt dLon (Num 2))))
                   (num_sin rt (num_div rt dLon (Num 2))));
          c = num_mul rt (Num 2)
                (num_atan2 rt (num_sqrt rt a) (num_sqrt rt (num_sub rt (Num 1) a)))
      in num_mul rt R c)"

text \<open>The value of the local constant \<open>a\<close> of the routine.\<close>

definition computed_a :: "runtime \<Rightarrow> number \<Rightarrow> number \<Rightarrow> number \<Rightarrow> number \<Rightarrow> number" where
  "computed_a rt lat1 lon1 lat2 lon2 =
     (let dLat = num_div rt (num_mul rt (num_sub rt lat2 lat1) (Num (rt_PI rt))) (Num 180);
          dLon = num_div rt (num_mul rt (num_sub rt lon2 lon1) (Num (rt_PI rt))) (Num 180)
      in num_add rt
           (num_mul rt (num_sin rt (num_div rt dLat (Num 2)))
                       (num_sin rt (num_div rt dLat (Num 2))))
           (num_mul rt
              (num_mul rt
                 (num_mul rt
                    (num_cos rt (num_div rt (num_mul rt lat1 (Num (rt_PI rt))) (Num 180)))
                    (num_cos rt (num_div rt (num_mul rt lat2 (Num (rt_PI rt))) (Num 180))))
                 (num_sin rt (num_div rt dLon (Num 2))))
              (num_sin rt (num_div rt dLon (Num 2)))))"

text \<open>The runtime that does not round: exact arithmetic.\<close>

definition exact_runtime :: runtime where
  "exact_runtime =
     \<lparr>rt_round = (\<lambda>x. x), rt_sin = sin, rt_cos = cos, rt_atan2 = Math_atan2, rt_PI = pi\<rparr>"

text \<open>
  The runtime of the double-precision runs below: every operation returns the double
  nearest to its exact result, ties to the even significand (IEEE-754 binary64, which
  ECMAScript prescribes for \<open>+\<close>, \<open>-\<close>, \<open>*\<close> and \<open>/\<close>), a double being an integer of at
  most 53 bits times a power of two; the exponent range is left unbounded, so overflow
  and subnormal numbers are not modelled. \<open>Math.sqrt\<close>, \<open>Math.sin\<close>, \<open>Math.cos\<close> and
  \<open>Math.atan2\<close> are taken to be correctly rounded, and \<open>Math.PI\<close> is the double nearest to
  \<open>pi\<close>.
\<close>

definition round_to_even :: "real \<Rightarrow> int" where
  "round_to_even y =
     (let f = \<lfloor>y\<rfloor>; r = y - of_int f
      in if r < 1 / 2 then f else if 1 / 2 < r then f + 1 else if even f then f else f + 1)"

definition binary64_round :: "real \<Rightarrow> real" where
  "binary64_round x =
     (if x = 0 then 0
      else (let e = \<lfloor>log 2 \<bar>x\<bar>\<rfloor> - 52
            in of_int (round_to_even (x / 2 powr of_int e)) * 2 powr of_int e))"

definition binary64 :: runtime where
  "binary64 =
     \<lparr>rt_round = binary64_round,
      rt_sin = (\<lambda>x. binary64_round (sin x)),
      rt_cos = (\<lambda>x. binary64_round (cos x)),
      rt_atan2 = (\<lambda>y x. binary64_round (Math_atan2 y x)),
      rt_PI = 884279719003555 / 281474976710656\<rparr>"

text \<open>
  Two exactly antipodal Positions: latitude 0.08 and -0.08 degrees (the double nearest
  to 0.08), longitude 0 and 180 degrees.
\<close>

definition double_0_08 :: real where
  "double_0_08 = 5764607523034235 / 72057594037927936"

section \<open>The Dashboard: state, refresh and the \<open>hazard_alert\<close> handler\<close>

text \<open>\<open>interface Location\<close> and \<open>interface Hazard\<close> of \<open>lib/api.ts\<close>; \<open>h_id\<close> is the field \<open>_id\<close>.\<close>

record Location =
  lat :: real
  lon :: real

record Hazard =
  h_id :: string
  user_id :: string
  hazard_type :: string
  description :: string
  confidence :: real
  location :: Location
  timestamp :: string

text \<open>
  The payload \<open>data\<close> of a \<open>hazard_alert\<close> event is untyped (\<open>any\<close>). The handler reads
  \<open>data.location\<close> only, so the payload is an object whose \<open>location\<close> property may be
  missing (\<open>None\<close>, the value \<open>undefined\<close>) and whose other properties are kept as they
  came.
\<close>

record hazard_alert_data =
  data_location :: "Location option"
  data_fields :: "(string \<times> string) list"

text \<open>
  \<open>alertWithId = {...data, id: Date.now().toString()}\<close>: the properties of \<open>data\<close> and the
  property \<open>id\<close>.
\<close>

record AlertRecord =
  alert_id :: string
  alert_data :: hazard_alert_data

text \<open>
  The React state of \<open>Dashboard\<close> (\<open>hazards\<close>, \<open>loading\<close>, \<open>alerts\<close>) together with the
  effects on its collaborators that the properties below count: the requests issued to
  \<open>hazardAPI.getHazards\<close> and the toasts shown. \<open>console.log\<close> is not recorded.
\<close>

record Dashboard =
  hazards :: "Hazard list"
  loading :: bool
  alerts :: "AlertRecord list"
  getHazards_requests :: nat
  toasts :: "(string \<times> string) list"

definition setAlerts :: "(AlertRecord list \<Rightarrow> AlertRecord list) \<Rightarrow> Dashboard \<Rightarrow> Dashboard" where
  "setAlerts f s = s\<lparr>alerts := f (alerts s)\<rparr>"

text \<open>
  \<open>fetchHazards\<close> is an \<open>async\<close> function. Calling it runs its body up to the \<open>await\<close>:
  one request is issued and the caller goes on without waiting (\<open>fetchHazards\<close>). The
  rest of the body runs when the request settles (\<open>fetchHazards_settled\<close>): on success
  \<open>setHazards(response.data)\<close>, on failure the \<open>catch\<close> block with its toast, and
  \<open>setLoading(false)\<close> in both cases. No exception leaves the function.
\<close>

datatype 'a settled = Fulfilled 'a | Rejected

definition fetchHazards :: "Dashboard \<Rightarrow> Dashboard" where
  "fetchHazards s = s\<lparr>getHazards_requests := getHazards_requests s + 1\<rparr>"

definition fetchHazards_settled :: "Hazard list settled \<Rightarrow> Dashboard \<Rightarrow> Dashboard" where
  "fetchHazards_settled response s =
     (case response of
        Fulfilled d \<Rightarrow> s\<lparr>hazards := d, loading := False\<rparr>
      | Rejected \<Rightarrow>
          s\<lparr>toasts := toasts s @ [(''Error'', ''Could not fetch hazards'')], loading := False\<rparr>)"

text \<open>
  \<open>Date.now().toString()\<close>: \<open>Date.now()\<close> is the clock of the environment, a number of
  milliseconds, passed to the handler as \<open>now\<close>; \<open>toString\<close> writes it in decimal.
\<close>

definition digit_char :: "nat \<Rightarrow> char" where
  "digit_char d = char_of (48 + d)"

function Number_toString :: "nat \<Rightarrow> string" where
  "Number_toString n =
     (if n < 10 then [digit_char n]
      else Number_toString (n div 10) @ [digit_char (n mod 10)])"
  by pat_completeness auto
termination
  by (relation "measure id") auto

text \<open>
  How a call of the handler ends: it returns, or it throws. Reading a property of
  \<open>undefined\<close> throws \<open>TypeError\<close>.
\<close>

datatype error = TypeError

datatype completion = Normal | Throw error

definition alertWithId :: "nat \<Rightarrow> hazard_alert_data \<Rightarrow> AlertRecord" where
  "alertWithId now data = \<lparr>alert_id = Number_toString now, alert_data = data\<rparr>"

text \<open>
  The handler registered by \<open>socket.on('hazard_alert', ...)\<close> (Dashboard.tsx, lines 74-98).
  \<open>currentLocation\<close> is the value of the location context at the render whose effect
  registered the handler; the effect is re-run whenever it changes. The state is
  returned with the completion: statements before a \<open>throw\<close> keep their effect.
\<close>

definition hazard_alert ::
  "Location option \<Rightarrow> nat \<Rightarrow> hazard_alert_data \<Rightarrow> Dashboard \<Rightarrow> completion \<times> Dashboard" where
  "hazard_alert currentLocation now data s =
     (case currentLocation of
        None \<Rightarrow> (Normal, s)
      | Some cl \<Rightarrow>
          (case data_location data of
             None \<Rightarrow> (Throw TypeError, s)
           | Some l \<Rightarrow>
               (let distance = calculateDistance (lat cl) (lon cl) (lat l) (lon l)
                in if distance \<le> 3
                   then (Normal,
                         fetchHazards (setAlerts (\<lambda>prev. prev @ [alertWithId now data]) s))
                   else (Normal, s))))"

text \<open>\<open>dismissAlert\<close> (Dashboard.tsx, lines 126-128).\<close>

definition dismissAlert :: "string \<Rightarrow> Dashboard \<Rightarrow> Dashboard" where
  "dismissAlert i s = setAlerts (\<lambda>prev. filter (\<lambda>alert. alert_id alert \<noteq> i) prev) s"

text \<open>The state of a freshly mounted Dashboard.\<close>

definition initial_Dashboard :: Dashboard where
  "initial_Dashboard =
     \<lparr>hazards = [], loading = True, alerts = [], getHazards_requests = 0, toasts = []\<rparr>"

text \<open>
  The condition under which the specification admits an event: a current Position is
  known, the payload carries a location, and the computed distance is at most 3 km.
\<close>

definition admissible :: "Location option \<Rightarrow> hazard_alert_data \<Rightarrow> bool" where
  "admissible currentLocation data =
     (case (currentLocation, data_location data) of
        (Some cl, Some l) \<Rightarrow> calculateDistance (lat cl) (lon cl) (lat l) (lon l) \<le> 3
      | _ \<Rightarrow> False)"

text \<open>
  Inputs of the scenarios: the Position \<open>(40.0, -74.0)\<close> of the specification, an event
  about 1.1 km north of it, an event about 11 km north of it, and a payload without
  \<open>location\<close>.
\<close>

definition scenario_position :: Location where
  "scenario_position = \<lparr>lat = 40.0, lon = -74.0\<rparr>"

definition near_event :: hazard_alert_data where
  "near_event =
     \<lparr>data_location = Some \<lparr>lat = 40.01, lon = -74.0\<rparr>,
      data_fields = [(''hazard_type'', ''pothole'')]\<rparr>"

definition far_event :: hazard_alert_data where
  "far_event =
     \<lparr>data_location = Some \<lparr>lat = 40.10, lon = -74.0\<rparr>,
      data_fields = [(''hazard_type'', ''flood'')]\<rparr>"

definition malformed_event :: hazard_alert_data where
  "malformed_event = \<lparr>data_location = None, data_fields = [(''hazard_type'', ''pothole'')]\<rparr>"

section \<open>HazardList: the sorted listing\<close>

text \<open>
  \<open>new Date(text).getTime()\<close> is the time value of the date in milliseconds, or NaN when
  the text is not a date. It is a parameter \<open>getTime\<close> of the listing.
\<close>

text \<open>
  \<open>Array.prototype.sort(comparefn)\<close> belongs to the language. ECMAScript fixes that
  \<open>SortCompare\<close> calls \<open>comparefn(x, y)\<close> and reads a NaN result as \<open>+0\<close>, that the sort is
  stable, and that the array is sorted in place and returned. For a comparator that is
  consistent on the elements every conforming sort gives the same array, the one of the
  stable insertion sort below: each element, in the order of the array, is put before
  the first element that it is strictly smaller than. For a comparator that is not
  consistent (one that returns NaN for some pairs only) ECMAScript leaves the order to
  the implementation; engines still return a permutation, and nothing below relies on
  more than that in this case.
\<close>

definition SortCompare :: "('a \<Rightarrow> 'a \<Rightarrow> number) \<Rightarrow> 'a \<Rightarrow> 'a \<Rightarrow> real" where
  "SortCompare comparefn x y = (case comparefn x y of NaN \<Rightarrow> 0 | Num v \<Rightarrow> v)"

fun sort_insert :: "('a \<Rightarrow> 'a \<Rightarrow> number) \<Rightarrow> 'a \<Rightarrow> 'a list \<Rightarrow> 'a list" where
  "sort_insert comparefn x [] = [x]"
| "sort_insert comparefn x (y # ys) =
     (if SortCompare comparefn x y < 0 then x # y # ys
      else y # sort_insert comparefn x ys)"

definition Array_sort :: "('a \<Rightarrow> 'a \<Rightarrow> number) \<Rightarrow> 'a list \<Rightarrow> 'a list" where
  "Array_sort comparefn xs = foldl (\<lambda>acc x. sort_insert comparefn x acc) [] xs"

text \<open>
  Arrays are objects: a value of type \<open>Hazard[]\<close> is a reference into the heap, here the
  index of the array in the list of all arrays. \<open>[...hazards]\<close> allocates a new array
  with the elements of \<open>hazards\<close>; \<open>sort\<close> overwrites the array it is called on.
\<close>

type_synonym 'a heap = "'a list list"

definition spread :: "nat \<Rightarrow> 'a heap \<Rightarrow> nat \<times> 'a heap" where
  "spread a h = (length h, h @ [h ! a])"

definition sort_in_place :: "('a \<Rightarrow> 'a \<Rightarrow> number) \<Rightarrow> nat \<Rightarrow> 'a heap \<Rightarrow> nat \<times> 'a heap" where
  "sort_in_place comparefn a h = (a, h[a := Array_sort comparefn (h ! a)])"

text \<open>
  The comparator of \<open>sortedHazards\<close> (HazardList.tsx, lines 37-53) in the arithmetic of
  the runtime. \<open>getTime\<close> stands for \<open>new Date(_).getTime()\<close>.
\<close>

definition compareHazards ::
  "runtime \<Rightarrow> (string \<Rightarrow> number) \<Rightarrow> Location option \<Rightarrow> Hazard \<Rightarrow> Hazard \<Rightarrow> number" where
  "compareHazards rt getTime currentLocation a b =
     (case currentLocation of
        None \<Rightarrow> num_sub rt (getTime (timestamp b)) (getTime (timestamp a))
      | Some cl \<Rightarrow>
          (let distA = HazardList_calculateDistance_in rt (Num (lat cl)) (Num (lon cl))
                         (Num (lat (location a))) (Num (lon (location a)));
               distB = HazardList_calculateDistance_in rt (Num (lat cl)) (Num (lon cl))
                         (Num (lat (location b))) (Num (lon (location b)))
           in num_sub rt distA distB))"

definition sortedHazards ::
  "runtime \<Rightarrow> (string \<Rightarrow> number) \<Rightarrow> Location option \<Rightarrow> nat \<Rightarrow> Hazard heap
     \<Rightarrow> nat \<times> Hazard heap" where
  "sortedHazards rt getTime currentLocation hazardsRef h =
     (case spread hazardsRef h of
        (copy, h1) \<Rightarrow> sort_in_place (compareHazards rt getTime currentLocation) copy h1)"

text \<open>
  The orders of the listing: by non-decreasing computed distance from a Position, and
  by timestamp, the most recent first. Neither holds of a list of two or more hazards
  one of which has a NaN distance, or a timestamp that is no date.
\<close>

definition distance_from_in :: "runtime \<Rightarrow> Location \<Rightarrow> Hazard \<Rightarrow> number" where
  "distance_from_in rt cl x =
     HazardList_calculateDistance_in rt (Num (lat cl)) (Num (lon cl))
       (Num (lat (location x))) (Num (lon (location x)))"

definition by_distance :: "runtime \<Rightarrow> Location \<Rightarrow> Hazard list \<Rightarrow> bool" where
  "by_distance rt cl xs =
     sorted_wrt (\<lambda>x y. number_le (distance_from_in rt cl x) (distance_from_in rt cl y)) xs"

definition newest_first :: "(string \<Rightarrow> number) \<Rightarrow> Hazard list \<Rightarrow> bool" where
  "newest_first getTime xs =
     sorted_wrt (\<lambda>x y. number_le (getTime (timestamp y)) (getTime (timestamp x))) xs"

text \<open>The real that a number holds; used where the number is known not to be NaN.\<close>

fun num_value :: "number \<Rightarrow> real" where
  "num_value (Num t) = t"
| "num_value NaN = 0"

text \<open>
  A double is a value of the rounding. The difference of two doubles is rounded to a
  double of the same sign (the difference of two distinct doubles is never rounded to
  zero): this is what the listing needs of the runtime.
\<close>

definition is_double :: "runtime \<Rightarrow> number \<Rightarrow> bool" where
  "is_double rt v = (\<exists>t. v = Num (rt_round rt t))"

definition sign_of_difference :: "runtime \<Rightarrow> bool" where
  "sign_of_difference rt =
     (\<forall>x y. (rt_round rt (rt_round rt x - rt_round rt y) < 0) = (rt_round rt x < rt_round rt y))"

text \<open>
  Inputs for the listing: two hazards on the meridian of the scenario Position, the
  older one the farther; a hazard whose timestamp is no date; a Position and a hazard
  exactly antipodal to it; and a reading of the timestamps.
\<close>

definition older_hazard :: Hazard where
  "older_hazard =
     \<lparr>h_id = ''h1'', user_id = ''u1'', hazard_type = ''flood'', description = ''water on road'',
      confidence = 90, location = \<lparr>lat = 40.10, lon = -74.0\<rparr>,
      timestamp = ''2024-01-01T00:00:00Z''\<rparr>"

definition newer_hazard :: Hazard where
  "newer_hazard =
     \<lparr>h_id = ''h2'', user_id = ''u2'', hazard_type = ''pothole'', description = ''deep pothole'',
      confidence = 80, location = \<lparr>lat = 40.01, lon = -74.0\<rparr>,
      timestamp = ''2024-01-02T00:00:00Z''\<rparr>"

definition undated_hazard :: Hazard where
  "undated_hazard =
     \<lparr>h_id = ''h3'', user_id = ''u3'', hazard_type = ''accident'', description = ''collision'',
      confidence = 70, location = \<lparr>lat = 40.05, lon = -74.0\<rparr>,
      timestamp = ''not a date''\<rparr>"

definition antipode_position :: Location where
  "antipode_position = \<lparr>lat = double_0_08, lon = 0\<rparr>"

definition antipodal_hazard :: Hazard where
  "antipodal_hazard =
     \<lparr>h_id = ''h4'', user_id = ''u4'', hazard_type = ''roadblock'', description = ''road closed'',
      confidence = 60, location = \<lparr>lat = - double_0_08, lon = 180\<rparr>,
      timestamp = ''2024-01-03T00:00:00Z''\<rparr>"

definition example_getTime :: "string \<Rightarrow> number" where
  "example_getTime text =
     (if text = ''2024-01-01T00:00:00Z'' then Num 1704067200000
      else if text = ''2024-01-02T00:00:00Z'' then Num 1704153600000
      else if text = ''2024-01-03T00:00:00Z'' then Num 1704240000000
      else NaN)"

section \<open>Dashboard: the SocketIO effect\<close>

text \<open>
  A socket created by \<open>io(url, {auth: {token}})\<close>. It delivers the events of the server to
  its handlers from its creation until \<open>disconnect()\<close> is called on it.
\<close>

record Socket =
  auth_token :: string
  delivering :: bool

datatype phase = Unrendered | Mounted | Unmounted

text \<open>
  The part of the world the effect acts on: every socket created so far (a socket is
  named by its index), the socket held by the cleanup function that the last run of the
  effect returned (\<open>None\<close> when it returned none), and the dependency array
  \<open>[user?.token, currentLocation]\<close> of that run. \<open>user?.token\<close> is \<open>None\<close> when there is no
  user; \<open>currentLocation\<close> is compared by \<open>Object.is\<close>, so only the identity of the object
  counts (a number, \<open>None\<close> for \<open>null\<close>).
\<close>

record Channel =
  sockets :: "Socket list"
  cleanup :: "nat option"
  deps :: "string option \<times> nat option"
  phase :: phase

definition io :: "string \<Rightarrow> Channel \<Rightarrow> nat \<times> Channel" where
  "io token w =
     (length (sockets w), w\<lparr>sockets := sockets w @ [\<lparr>auth_token = token, delivering = True\<rparr>]\<rparr>)"

definition disconnect :: "nat \<Rightarrow> Channel \<Rightarrow> Channel" where
  "disconnect socket w =
     (if socket < length (sockets w)
      then w\<lparr>sockets := (sockets w)[socket := (sockets w ! socket)\<lparr>delivering := False\<rparr>]\<rparr>
      else w)"

text \<open>
  The effect (Dashboard.tsx, lines 56-107): without a token (no user, or the empty
  string, which is falsy) it returns at once and without a cleanup function; otherwise
  it creates a socket, registers the handlers and returns the cleanup function that
  disconnects this socket.
\<close>

definition SocketIO_effect :: "string option \<Rightarrow> Channel \<Rightarrow> Channel" where
  "SocketIO_effect token w =
     (case token of
        None \<Rightarrow> w\<lparr>cleanup := None\<rparr>
      | Some t \<Rightarrow>
          (if t = [] then w\<lparr>cleanup := None\<rparr>
           else (case io t w of (socket, w') \<Rightarrow> w'\<lparr>cleanup := Some socket\<rparr>)))"

text \<open>
  React's part: before an effect runs again, and when the component unmounts, the
  cleanup function of its last run is called, once. The effect runs after the first
  render and after every render in which a dependency has changed.
\<close>

definition run_cleanup :: "Channel \<Rightarrow> Channel" where
  "run_cleanup w =
     (case cleanup w of
        None \<Rightarrow> w
      | Some socket \<Rightarrow> (disconnect socket w)\<lparr>cleanup := None\<rparr>)"

datatype lifecycle = Render "string option" "nat option" | Unmount

fun react :: "Channel \<Rightarrow> lifecycle \<Rightarrow> Channel" where
  "react w (Render token loc) =
     (case phase w of
        Unrendered \<Rightarrow> (SocketIO_effect token w)\<lparr>deps := (token, loc), phase := Mounted\<rparr>
      | Mounted \<Rightarrow>
          (if deps w = (token, loc) then w
           else (SocketIO_effect token (run_cleanup w))\<lparr>deps := (token, loc)\<rparr>)
      | Unmounted \<Rightarrow> w)"
| "react w Unmount =
     (case phase w of
        Mounted \<Rightarrow> (run_cleanup w)\<lparr>phase := Unmounted\<rparr>
      | _ \<Rightarrow> w\<lparr>phase := Unmounted\<rparr>)"

definition initial_Channel :: Channel where
  "initial_Channel = \<lparr>sockets = [], cleanup = None, deps = (None, None), phase = Unrendered\<rparr>"

definition session :: "lifecycle list \<Rightarrow> Channel" where
  "session events = foldl react initial_Channel events"

text \<open>The sockets that deliver events, and the token the effect would use.\<close>

definition delivering_sockets :: "Channel \<Rightarrow> nat list" where
  "delivering_sockets w = filter (\<lambda>i. delivering (sockets w ! i)) [0..<length (sockets w)]"

definition truthy :: "string option \<Rightarrow> bool" where
  "truthy token = (case token of None \<Rightarrow> False | Some t \<Rightarrow> t \<noteq> [])"

text \<open>
  The invariant of the effect: the only socket that can deliver is the one the pending
  cleanup function holds, it was created with the token of the last run, and the
  component is mounted.
\<close>

definition channel_inv :: "Channel \<Rightarrow> bool" where
  "channel_inv w =
     (case cleanup w of
        None \<Rightarrow> delivering_sockets w = []
      | Some socket \<Rightarrow>
          delivering_sockets w = [socket] \<and> socket < length (sockets w) \<and> phase w = Mounted \<and>
          fst (deps w) = Some (auth_token (sockets w ! socket)) \<and> truthy (fst (deps w)))"

section \<open>AlertNotification: the timers of an alert\<close>

text \<open>
  The functions that the component showing the alert of a given id passes to
  \<open>setTimeout\<close>: \<open>() => setIsVisible(true)\<close>, \<open>() => { handleDismiss(); }\<close> and \<open>onDismiss\<close>,
  which is \<open>() => dismissAlert(alert.id)\<close> of Dashboard.
\<close>

datatype callback = SlideIn string | AutoDismiss string | OnDismiss string

record Timeout =
  handle :: nat
  due :: nat
  callback :: callback

text \<open>
  A mounted \<open>AlertNotification\<close>: the id of its alert (its React key), its state
  \<open>isVisible\<close>, and the variable \<open>timer\<close> that its cleanup function closes over.
\<close>

record Notification =
  shown :: string
  isVisible :: bool
  timer :: nat

text \<open>
  The page: the clock in milliseconds (\<open>Date.now()\<close>), the pending timeouts in the order
  of their \<open>setTimeout\<close> calls, the Dashboard state, the mounted notifications, and the
  log of the callbacks that have run, each with the time at which it ran.
\<close>

record Page =
  clock :: nat
  timeouts :: "Timeout list"
  next_handle :: nat
  dashboard :: Dashboard
  notifications :: "Notification list"
  fired :: "(nat \<times> callback) list"

definition setTimeout :: "callback \<Rightarrow> nat \<Rightarrow> Page \<Rightarrow> nat \<times> Page" where
  "setTimeout cb delay p =
     (next_handle p,
      p\<lparr>timeouts := timeouts p @ [\<lparr>handle = next_handle p, due = clock p + delay, callback = cb\<rparr>],
        next_handle := next_handle p + 1\<rparr>)"

definition clearTimeout :: "nat \<Rightarrow> Page \<Rightarrow> Page" where
  "clearTimeout h p = p\<lparr>timeouts := filter (\<lambda>x. handle x \<noteq> h) (timeouts p)\<rparr>"

definition setIsVisible :: "string \<Rightarrow> bool \<Rightarrow> Page \<Rightarrow> Page" where
  "setIsVisible k v p =
     p\<lparr>notifications := map (\<lambda>n. if shown n = k then n\<lparr>isVisible := v\<rparr> else n) (notifications p)\<rparr>"

text \<open>\<open>handleDismiss\<close> (AlertNotification.tsx, lines 45-48).\<close>

definition handleDismiss :: "string \<Rightarrow> Page \<Rightarrow> Page" where
  "handleDismiss k p = snd (setTimeout (OnDismiss k) 300 (setIsVisible k False p))"

text \<open>
  Mounting the component: its state starts with \<open>isVisible = false\<close> and its effect
  (lines 23-43) sets the slide-in timeout and the auto-dismiss timeout; the sound is not
  modelled. The cleanup function of the effect clears the auto-dismiss timeout.
\<close>

definition AlertNotification_effect :: "string \<Rightarrow> Page \<Rightarrow> Page" where
  "AlertNotification_effect k p =
     (case setTimeout (SlideIn k) 100 p of
        (_, p1) \<Rightarrow>
          (case setTimeout (AutoDismiss k) 10000 p1 of
             (t, p2) \<Rightarrow>
               p2\<lparr>notifications := notifications p2 @ [\<lparr>shown = k, isVisible = False, timer = t\<rparr>]\<rparr>))"

definition AlertNotification_cleanup :: "Notification \<Rightarrow> Page \<Rightarrow> Page" where
  "AlertNotification_cleanup n p = clearTimeout (timer n) p"

text \<open>
  React's part: after a change of \<open>alerts\<close> the Dashboard renders one notification per
  key \<open>alert.id\<close>; a notification whose key has left the list is unmounted, which runs its
  cleanup function, and a key that is new is mounted. The keys of the children are taken
  as distinct here, which React requires: two records of one id are mounted as one
  notification, where React gives no rule. The runs studied below hold one alert.
\<close>

definition render :: "Page \<Rightarrow> Page" where
  "render p =
     (let ids = map alert_id (alerts (dashboard p));
          gone = filter (\<lambda>n. shown n \<notin> set ids) (notifications p);
          kept = filter (\<lambda>n. shown n \<in> set ids) (notifications p);
          p1 = foldr AlertNotification_cleanup gone (p\<lparr>notifications := kept\<rparr>);
          new = filter (\<lambda>k. k \<notin> shown ` set kept) (remdups ids)
      in foldl (\<lambda>q k. AlertNotification_effect k q) p1 new)"

fun run_callback :: "callback \<Rightarrow> Page \<Rightarrow> Page" where
  "run_callback (SlideIn k) p = setIsVisible k True p"
| "run_callback (AutoDismiss k) p = handleDismiss k p"
| "run_callback (OnDismiss k) p = render (p\<lparr>dashboard := dismissAlert k (dashboard p)\<rparr>)"

text \<open>
  What can happen on the page. A \<open>hazard_alert\<close> event arrives; time passes, up to the
  next pending timeout at most (a timeout runs at its due time); the first pending
  timeout that is due runs; the user presses the X button of a mounted notification.
  \<open>step\<close> is \<open>None\<close> when the event cannot happen in the state.
\<close>

datatype event =
  Arrive "Location option" hazard_alert_data
| Advance nat
| Fire
| Click string

fun step :: "Page \<Rightarrow> event \<Rightarrow> Page option" where
  "step p (Arrive currentLocation data) =
     (case hazard_alert currentLocation (clock p) data (dashboard p) of
        (_, d) \<Rightarrow> Some (render (p\<lparr>dashboard := d\<rparr>)))"
| "step p (Advance t) =
     (if clock p \<le> t \<and> list_all (\<lambda>x. t \<le> due x) (timeouts p)
      then Some (p\<lparr>clock := t\<rparr>) else None)"
| "step p Fire =
     (case filter (\<lambda>x. due x \<le> clock p) (timeouts p) of
        [] \<Rightarrow> None
      | x # _ \<Rightarrow>
          Some (run_callback (callback x)
                  ((clearTimeout (handle x) p)\<lparr>fired := fired p @ [(clock p, callback x)]\<rparr>)))"
| "step p (Click k) =
     (if k \<in> shown ` set (notifications p) then Some (handleDismiss k p) else None)"

fun exec :: "Page \<Rightarrow> event list \<Rightarrow> Page option" where
  "exec p [] = Some p"
| "exec p (e # es) = (case step p e of None \<Rightarrow> None | Some p' \<Rightarrow> exec p' es)"

definition initial_Page :: Page where
  "initial_Page =
     \<lparr>clock = 1700000000000, timeouts = [], next_handle = 1, dashboard = initial_Dashboard,
      notifications = [], fired = []\<rparr>"

definition late_click :: "event list" where
  "late_click =
     [Arrive (Some scenario_position) near_event,
      Advance 1700000000100, Fire,
      Advance 1700000009800, Click ''1700000000000'',
      Advance 1700000010000, Fire,
      Advance 1700000010100, Fire,
      Advance 1700000010300, Fire]"

definition no_click :: "event list" where
  "no_click =
     [Arrive (Some scenario_position) near_event,
      Advance 1700000000100, Fire,
      Advance 1700000010000, Fire,
      Advance 1700000010300, Fire]"

section \<open>Facts about the distance routine\<close>

lemma radians_diff: "(y - x) * pi / 180 = radians y - radians x"
  by (simp add: radians_def field_simps)

lemma calculateDistance_haversine_a:
  "calculateDistance lat1 lon1 lat2 lon2 =
     6371 * (2 * Math_atan2 (sqrt (haversine_a lat1 lon1 lat2 lon2))
                            (sqrt (1 - haversine_a lat1 lon1 lat2 lon2)))"
  unfolding calculateDistance_def Let_def haversine_a_def radians_diff power2_eq_square
  by (simp add: radians_def mult.assoc)

text \<open>
  \<open>a\<close> is half of one minus the inner product of the two unit vectors, so it lies in
  \<open>[0, 1]\<close>: both square roots of the routine are taken of non-negative numbers.
\<close>

lemma sin_half_squared: "(sin (u / 2))\<^sup>2 = (1 - cos (u::real)) / 2"
  using cos_double_sin[of "u / 2"] by simp

lemma haversine_a_inner_product:
  "haversine_a lat1 lon1 lat2 lon2 =
     (1 - (sin (radians lat1) * sin (radians lat2) +
           cos (radians lat1) * cos (radians lat2) * cos (radians lon2 - radians lon1))) / 2"
  unfolding haversine_a_def sin_half_squared cos_diff[of "radians lat2" "radians lat1"]
  by (simp add: field_simps)

lemma inner_product_bound:
  fixes s1 c1 s2 c2 k :: real
  assumes "s1\<^sup>2 + c1\<^sup>2 = 1" "s2\<^sup>2 + c2\<^sup>2 = 1" "\<bar>k\<bar> \<le> 1"
  shows "\<bar>s1 * s2 + c1 * c2 * k\<bar> \<le> 1"
proof -
  have a: "2 * (\<bar>s1\<bar> * \<bar>s2\<bar>) \<le> s1\<^sup>2 + s2\<^sup>2"
    using zero_le_power2[of "\<bar>s1\<bar> - \<bar>s2\<bar>"] by (simp add: power2_eq_square algebra_simps)
  have b: "2 * (\<bar>c1\<bar> * \<bar>c2\<bar>) \<le> c1\<^sup>2 + c2\<^sup>2"
    using zero_le_power2[of "\<bar>c1\<bar> - \<bar>c2\<bar>"] by (simp add: power2_eq_square algebra_simps)
  have "\<bar>c1 * c2 * k\<bar> \<le> \<bar>c1\<bar> * \<bar>c2\<bar> * 1"
    unfolding abs_mult using assms(3) by (intro mult_left_mono) simp_all
  then have "\<bar>s1 * s2 + c1 * c2 * k\<bar> \<le> \<bar>s1\<bar> * \<bar>s2\<bar> + \<bar>c1\<bar> * \<bar>c2\<bar>"
    using abs_triangle_ineq[of "s1 * s2" "c1 * c2 * k"] by (simp add: abs_mult)
  with a b assms(1,2) show ?thesis by linarith
qed

lemma haversine_a_range:
  "0 \<le> haversine_a lat1 lon1 lat2 lon2 \<and> haversine_a lat1 lon1 lat2 lon2 \<le> 1"
proof -
  have "\<bar>sin (radians lat1) * sin (radians lat2) +
        cos (radians lat1) * cos (radians lat2) * cos (radians lon2 - radians lon1)\<bar> \<le> 1"
    by (rule inner_product_bound) simp_all
  then show ?thesis unfolding haversine_a_inner_product by (simp add: abs_le_iff)
qed

lemma calculateDistance_same_position: "calculateDistance la lo la lo = 0"
  unfolding calculateDistance_haversine_a by (simp add: haversine_a_def Math_atan2_def)

lemma Math_atan2_sin_cos:
  assumes "0 \<le> x" "x \<le> pi / 2"
  shows "Math_atan2 (sin x) (cos x) = x"
proof (cases "x = pi / 2")
  case True
  show ?thesis unfolding True by (simp add: Math_atan2_def)
next
  case False
  with assms have lt: "x < pi / 2" by simp
  have gt: "- (pi / 2) < x" using assms(1) pi_gt_zero by linarith
  then have c: "0 < cos x" using lt by (rule cos_gt_zero_pi)
  have "arctan (sin x / cos x) = x"
    using arctan_tan[of x] gt lt by (simp add: tan_def)
  with c show ?thesis by (simp add: Math_atan2_def)
qed

text \<open>Along a meridian the routine returns the arc length \<open>R \<Delta>lat\<close>.\<close>

lemma calculateDistance_same_meridian:
  assumes "lat1 \<le> lat2" "lat2 - lat1 \<le> 180"
  shows "calculateDistance lat1 lo lat2 lo = 6371 * ((lat2 - lat1) * pi / 180)"
proof -
  define x where "x = (radians lat2 - radians lat1) / 2"
  have xe: "x = (lat2 - lat1) * pi / 360" by (simp add: x_def radians_def field_simps)
  have x0: "0 \<le> x" using assms unfolding xe by simp
  have "(lat2 - lat1) * pi \<le> 180 * pi" using assms(2) by (intro mult_right_mono) simp_all
  then have x1: "x \<le> pi / 2" unfolding xe by simp
  have a: "haversine_a lat1 lo lat2 lo = (sin x)\<^sup>2"
    by (simp add: haversine_a_def x_def)
  have "0 \<le> sin x" using x0 x1 by (intro sin_ge_zero) simp_all
  then have s: "sqrt ((sin x)\<^sup>2) = sin x" by simp
  have "0 \<le> cos x" using x0 x1 by (intro cos_ge_zero) simp_all
  moreover have "1 - (sin x)\<^sup>2 = (cos x)\<^sup>2" by (simp add: cos_squared_eq)
  ultimately have c: "sqrt (1 - (sin x)\<^sup>2) = cos x" by simp
  show ?thesis
    unfolding calculateDistance_haversine_a a s c Math_atan2_sin_cos[OF x0 x1]
    by (simp add: xe)
qed

text \<open>The two scenarios of the specification, and a point at exactly 3 km.\<close>

lemma distance_scenario_near: "calculateDistance 40.0 (-74.0) 40.01 (-74.0) \<le> 3"
proof -
  have "calculateDistance 40.0 (-74.0) 40.01 (-74.0) = 6371 * ((40.01 - 40.0) * pi / 180)"
    by (rule calculateDistance_same_meridian) simp_all
  also have "\<dots> \<le> 3" using pi_less_4 by simp
  finally show ?thesis .
qed

lemma distance_scenario_far: "\<not> calculateDistance 40.0 (-74.0) 40.10 (-74.0) \<le> 3"
proof -
  have "calculateDistance 40.0 (-74.0) 40.10 (-74.0) = 6371 * ((40.10 - 40.0) * pi / 180)"
    by (rule calculateDistance_same_meridian) simp_all
  moreover have "3 < 6371 * ((40.10 - 40.0) * pi / 180)" using pi_ge_two by simp
  ultimately show ?thesis by simp
qed

lemma distance_exactly_3: "calculateDistance 0 0 (540 / (6371 * pi)) 0 = 3"
proof -
  have "540 / (6371 * pi) \<le> 540 / (6371 * 2)"
    using pi_ge_two by (intro divide_left_mono) simp_all
  then have "calculateDistance 0 0 (540 / (6371 * pi)) 0 =
      6371 * ((540 / (6371 * pi) - 0) * pi / 180)"
    by (intro calculateDistance_same_meridian) simp_all
  then show ?thesis by simp
qed

text \<open>
  The routine computes \<open>2 R arcsin(\<surd>a)\<close>, the length of the great-circle arc: it lies
  between 0 and half the circumference, and it is symmetric in the two positions.
\<close>

lemma Math_atan2_arcsin:
  assumes "0 \<le> a" "a \<le> 1"
  shows "Math_atan2 (sqrt a) (sqrt (1 - a)) = arcsin (sqrt a)"
proof -
  define x where "x = arcsin (sqrt a)"
  have s01: "0 \<le> sqrt a" "sqrt a \<le> 1" using assms by simp_all
  then have m1: "- 1 \<le> sqrt a" by linarith
  have sx: "sin x = sqrt a" unfolding x_def using m1 s01(2) by (rule sin_arcsin)
  have "cos x = sqrt (1 - (sqrt a)\<^sup>2)" unfolding x_def using m1 s01(2) by (rule cos_arcsin)
  then have cx: "cos x = sqrt (1 - a)" using assms by simp
  have x0: "0 \<le> x" unfolding x_def using s01 by (intro arcsin_nonneg) simp
  have x1: "x \<le> pi / 2" unfolding x_def using m1 s01(2) by (rule arcsin_ubound)
  from Math_atan2_sin_cos[OF x0 x1] have "Math_atan2 (sqrt a) (sqrt (1 - a)) = x"
    by (simp only: sx cx)
  then show ?thesis by (simp only: x_def)
qed

lemma calculateDistance_arcsin:
  "calculateDistance lat1 lon1 lat2 lon2 = 2 * 6371 * arcsin (sqrt (haversine_a lat1 lon1 lat2 lon2))"
  unfolding calculateDistance_haversine_a
  using haversine_a_range[of lat1 lon1 lat2 lon2] by (simp add: Math_atan2_arcsin)

lemma calculateDistance_range:
  "0 \<le> calculateDistance lat1 lon1 lat2 lon2 \<and> calculateDistance lat1 lon1 lat2 lon2 \<le> 6371 * pi"
proof -
  let ?s = "sqrt (haversine_a lat1 lon1 lat2 lon2)"
  have s: "0 \<le> ?s" "?s \<le> 1" using haversine_a_range[of lat1 lon1 lat2 lon2] by simp_all
  then have "0 \<le> arcsin ?s" by (intro arcsin_nonneg) simp
  moreover have "arcsin ?s \<le> pi / 2" using s by (intro arcsin_ubound) linarith+
  ultimately show ?thesis unfolding calculateDistance_arcsin by simp
qed

lemma haversine_a_symmetric: "haversine_a lat1 lon1 lat2 lon2 = haversine_a lat2 lon2 lat1 lon1"
proof -
  have "(sin ((u - v) / 2))\<^sup>2 = (sin ((v - u) / 2))\<^sup>2" for u v :: real
  proof -
    have "(u - v) / 2 = - ((v - u) / 2)" by (simp add: field_simps)
    then have "sin ((u - v) / 2) = - sin ((v - u) / 2)" by (simp only: sin_minus)
    then show ?thesis by simp
  qed
  then show ?thesis unfolding haversine_a_def by (simp add: mult.commute)
qed

lemma calculateDistance_symmetric:
  "calculateDistance lat1 lon1 lat2 lon2 = calculateDistance lat2 lon2 lat1 lon1"
  unfolding calculateDistance_haversine_a haversine_a_symmetric[of lat1 lon1 lat2 lon2] ..

text \<open>
  In exact arithmetic the routine is the formula of the specification.
\<close>

lemma calculateDistance_is_haversine:
  "calculateDistance lat1 lon1 lat2 lon2 = haversine_spec lat1 lon1 lat2 lon2"
  unfolding calculateDistance_haversine_a haversine_spec_def by simp

text \<open>
  C9. The distance routines at the three call sites (event admission in Dashboard, list
  sorting in HazardList, map annotation in HazardMap) return equal results for every
  pair of positions; each is a function of its four numeric arguments alone.
\<close>

theorem calculateDistance_three_sites_agree:
  "HazardList_calculateDistance lat1 lon1 lat2 lon2 = calculateDistance lat1 lon1 lat2 lon2 \<and>
   HazardMap_calculateDistance lat1 lon1 lat2 lon2 = calculateDistance lat1 lon1 lat2 lon2"
  unfolding HazardList_calculateDistance_def HazardMap_calculateDistance_def
    calculateDistance_def by simp

section \<open>Facts about the distance routine in the arithmetic of the runtime\<close>

lemma calculateDistance_in_computed_a:
  "calculateDistance_in rt lat1 lon1 lat2 lon2 =
     num_mul rt (Num 6371)
       (num_mul rt (Num 2)
          (num_atan2 rt (num_sqrt rt (computed_a rt lat1 lon1 lat2 lon2))
             (num_sqrt rt (num_sub rt (Num 1) (computed_a rt lat1 lon1 lat2 lon2)))))"
  by (simp add: calculateDistance_in_def computed_a_def Let_def)

lemma HazardList_calculateDistance_in_eq:
  "HazardList_calculateDistance_in rt lat1 lon1 lat2 lon2 =
     calculateDistance_in rt lat1 lon1 lat2 lon2"
  by (simp add: HazardList_calculateDistance_in_def calculateDistance_in_def)

text \<open>
  The routine returns NaN exactly when \<open>a\<close> is NaN or negative, or the rounded \<open>1 - a\<close> is
  negative; otherwise it returns a double.
\<close>

lemma calculateDistance_in_cases:
  "calculateDistance_in rt lat1 lon1 lat2 lon2 =
     (case computed_a rt lat1 lon1 lat2 lon2 of
        NaN \<Rightarrow> NaN
      | Num a \<Rightarrow>
          if a < 0 \<or> rt_round rt (1 - a) < 0 then NaN
          else Num (rt_round rt (6371 * rt_round rt (2 *
                 rt_atan2 rt (rt_round rt (sqrt a)) (rt_round rt (sqrt (rt_round rt (1 - a))))))))"
  unfolding calculateDistance_in_computed_a
  by (cases "computed_a rt lat1 lon1 lat2 lon2") auto

lemma calculateDistance_in_is_double:
  "calculateDistance_in rt lat1 lon1 lat2 lon2 = NaN \<or>
   is_double rt (calculateDistance_in rt lat1 lon1 lat2 lon2)"
  unfolding calculateDistance_in_cases is_double_def
  by (cases "computed_a rt lat1 lon1 lat2 lon2") auto

lemma computed_a_exact:
  "computed_a exact_runtime (Num lat1) (Num lon1) (Num lat2) (Num lon2) =
     Num (haversine_a lat1 lon1 lat2 lon2)"
  by (simp add: computed_a_def exact_runtime_def Let_def haversine_a_def radians_diff
      power2_eq_square radians_def mult.assoc)

lemma calculateDistance_in_exact:
  "calculateDistance_in exact_runtime (Num lat1) (Num lon1) (Num lat2) (Num lon2) =
     Num (calculateDistance lat1 lon1 lat2 lon2)"
proof -
  have r: "0 \<le> haversine_a lat1 lon1 lat2 lon2" "haversine_a lat1 lon1 lat2 lon2 \<le> 1"
    using haversine_a_range[of lat1 lon1 lat2 lon2] by simp_all
  show ?thesis
    unfolding calculateDistance_in_cases computed_a_exact calculateDistance_haversine_a
    using r by (simp add: exact_runtime_def)
qed

lemma antipodal_haversine_a: "haversine_a x 0 (- x) 180 = 1"
proof -
  have "haversine_a x 0 (- x) 180 = (sin (radians x))\<^sup>2 + (cos (radians x))\<^sup>2"
    by (simp add: haversine_a_def radians_def power2_eq_square mult.commute)
  then show ?thesis by simp
qed

lemma antipodal_haversine_spec: "haversine_spec x 0 (- x) 180 = 6371 * pi"
  by (simp add: haversine_spec_def antipodal_haversine_a Math_atan2_def)

section \<open>Facts about binary64 rounding\<close>

lemma round_to_even_near:
  assumes "\<bar>y - of_int m\<bar> < 1 / 2"
  shows "round_to_even y = m"
proof (cases "of_int m \<le> y")
  case True
  with assms have "\<lfloor>y\<rfloor> = m" by (intro floor_unique) linarith+
  with assms True show ?thesis by (simp add: round_to_even_def Let_def)
next
  case False
  from assms False have b: "of_int m - 1 \<le> y" "y < of_int m" by (simp_all add: abs_less_iff)
  then have f: "\<lfloor>y\<rfloor> = m - 1" by (intro floor_unique) simp_all
  from assms False have "1 / 2 < y - of_int (m - 1)" by (simp add: abs_less_iff)
  with f show ?thesis by (simp add: round_to_even_def Let_def)
qed

text \<open>
  A real whose quotient by \<open>2 ^ e\<close> has 53 bits and lies within one half of the integer
  \<open>m\<close> is rounded to \<open>m * 2 ^ e\<close>.
\<close>

lemma binary64_round_eq:
  fixes e m :: int
  assumes n: "2 ^ 52 \<le> \<bar>x\<bar> / 2 powr of_int e" "\<bar>x\<bar> / 2 powr of_int e < 2 ^ 53"
    and r: "\<bar>x / 2 powr of_int e - of_int m\<bar> < 1 / 2"
  shows "binary64_round x = of_int m * 2 powr of_int e"
proof -
  have p: "0 < (2::real) powr of_int e" by simp
  from n(1) p have x0: "x \<noteq> 0" by auto
  have lo: "2 powr of_int (52 + e) \<le> \<bar>x\<bar>"
  proof -
    have "(2::real) powr of_int (52 + e) = 2 ^ 52 * 2 powr of_int e"
      by (simp add: powr_add)
    also have "\<dots> \<le> \<bar>x\<bar>" using n(1) p by (simp add: pos_le_divide_eq)
    finally show ?thesis .
  qed
  have hi: "\<bar>x\<bar> < 2 powr (of_int (52 + e) + 1)"
  proof -
    have "\<bar>x\<bar> < 2 ^ 53 * 2 powr of_int e" using n(2) p by (simp add: pos_divide_less_eq)
    also have "\<dots> = (2::real) powr (of_int (52 + e) + 1)" by (simp add: powr_add)
    finally show ?thesis .
  qed
  have "\<lfloor>log 2 \<bar>x\<bar>\<rfloor> = 52 + e"
    using x0 lo hi by (subst floor_log_eq_powr_iff) simp_all
  then have "\<lfloor>log 2 \<bar>x\<bar>\<rfloor> - 52 = e" by simp
  then show ?thesis using x0 round_to_even_near[OF r] by (simp add: binary64_round_def Let_def)
qed

text \<open>The same for a real known up to an error.\<close>

lemma binary64_round_near:
  fixes e m :: int
  assumes a: "\<bar>y - p\<bar> \<le> err"
    and n: "2 ^ 52 \<le> (\<bar>p\<bar> - err) / 2 powr of_int e" "(\<bar>p\<bar> + err) / 2 powr of_int e < 2 ^ 53"
    and r: "\<bar>p / 2 powr of_int e - of_int m\<bar> + err / 2 powr of_int e < 1 / 2"
  shows "binary64_round y = of_int m * 2 powr of_int e"
proof (rule binary64_round_eq)
  have u: "0 < (2::real) powr of_int e" by simp
  from a have lo: "\<bar>p\<bar> - err \<le> \<bar>y\<bar>" and hi: "\<bar>y\<bar> \<le> \<bar>p\<bar> + err" by linarith+
  from lo have "(\<bar>p\<bar> - err) / 2 powr of_int e \<le> \<bar>y\<bar> / 2 powr of_int e"
    using u by (simp add: divide_right_mono)
  with n(1) show "2 ^ 52 \<le> \<bar>y\<bar> / 2 powr of_int e" by linarith
  from hi have "\<bar>y\<bar> / 2 powr of_int e \<le> (\<bar>p\<bar> + err) / 2 powr of_int e"
    using u by (simp add: divide_right_mono)
  with n(2) show "\<bar>y\<bar> / 2 powr of_int e < 2 ^ 53" by linarith
  have "\<bar>y / 2 powr of_int e - p / 2 powr of_int e\<bar> = \<bar>y - p\<bar> / 2 powr of_int e"
    by (simp add: diff_divide_distrib[symmetric])
  also have "\<dots> \<le> err / 2 powr of_int e" using a u by (simp add: divide_right_mono)
  finally have "\<bar>y / 2 powr of_int e - p / 2 powr of_int e\<bar> \<le> err / 2 powr of_int e" .
  with r show "\<bar>y / 2 powr of_int e - of_int m\<bar> < 1 / 2" by linarith
qed

lemma sin_poly_bound:
  "\<bar>sin x - (\<Sum>m<n. sin_coeff m * x ^ m)\<bar> \<le> \<bar>x\<bar> ^ n / fact n"
  using Maclaurin_sin_bound[of x n] by (simp add: field_simps)

lemma cos_poly_bound:
  "\<bar>cos x - (\<Sum>m<n. cos_coeff m * x ^ m)\<bar> \<le> \<bar>x\<bar> ^ n / fact n"
proof -
  from Maclaurin_cos_expansion[of x n] obtain t where
    c: "cos x = (\<Sum>m<n. cos_coeff m * x ^ m) + (cos (t + 1 / 2 * real n * pi) / fact n) * x ^ n"
    by blast
  have "\<bar>(cos (t + 1 / 2 * real n * pi) / fact n) * x ^ n\<bar> =
      \<bar>cos (t + 1 / 2 * real n * pi)\<bar> * (\<bar>x\<bar> ^ n / fact n)"
    by (simp add: abs_mult power_abs)
  also have "\<dots> \<le> 1 * (\<bar>x\<bar> ^ n / fact n)"
    by (intro mult_right_mono) simp_all
  finally show ?thesis using c by simp
qed

lemma sin_coeff_values:
  "sin_coeff 0 = 0"
  "sin_coeff (Suc 0) = 1"
  "sin_coeff 2 = 0"
  "sin_coeff 3 = - (1 / 6)"
  "sin_coeff 4 = 0"
  "sin_coeff 5 = 1 / 120"
  "sin_coeff 6 = 0"
  "sin_coeff 7 = - (1 / 5040)"
  "sin_coeff 8 = 0"
  "sin_coeff 9 = 1 / 362880"
  "sin_coeff 10 = 0"
  "sin_coeff 11 = - (1 / 39916800)"
  "sin_coeff 12 = 0"
  "sin_coeff 13 = 1 / 6227020800"
  "sin_coeff 14 = 0"
  "sin_coeff 15 = - (1 / 1307674368000)"
  "sin_coeff 16 = 0"
  "sin_coeff 17 = 1 / 355687428096000"
  "sin_coeff 18 = 0"
  "sin_coeff 19 = - (1 / 121645100408832000)"
  "sin_coeff 20 = 0"
  "sin_coeff 21 = 1 / 51090942171709440000"
  by (simp_all add: sin_coeff_def fact_numeral)

lemma cos_coeff_values:
  "cos_coeff 0 = 1"
  "cos_coeff (Suc 0) = 0"
  "cos_coeff 2 = - (1 / 2)"
  "cos_coeff 3 = 0"
  "cos_coeff 4 = 1 / 24"
  "cos_coeff 5 = 0"
  by (simp_all add: cos_coeff_def fact_numeral)

lemma sin_poly_6: "(\<Sum>m<6. sin_coeff m * x ^ m) = x - x ^ 3 / 6 + x ^ 5 / 120"
proof -
  have "{..<6::nat} = {0, 1, 2, 3, 4, 5}" by auto
  then show ?thesis by (simp add: sin_coeff_values)
qed

lemma cos_poly_6: "(\<Sum>m<6. cos_coeff m * x ^ m) = 1 - x ^ 2 / 2 + x ^ 4 / 24"
proof -
  have "{..<6::nat} = {0, 1, 2, 3, 4, 5}" by auto
  then show ?thesis by (simp add: cos_coeff_values)
qed

lemma sin_poly_22: "(\<Sum>m<22. sin_coeff m * x ^ m) = x - x ^ 3 / 6 + x ^ 5 / 120 - x ^ 7 / 5040 + x ^ 9 / 362880 - x ^ 11 / 39916800 + x ^ 13 / 6227020800 - x ^ 15 / 1307674368000 + x ^ 17 / 355687428096000 - x ^ 19 / 121645100408832000 + x ^ 21 / 51090942171709440000"
proof -
  have "{..<22::nat} = {0, 1, 2, 3, 4, 5, 6, 7, 8, 9, 10, 11, 12, 13, 14, 15, 16, 17, 18, 19, 20, 21}" by auto presburger
  then show ?thesis by (simp add: sin_coeff_values)
qed

text \<open>The roundings of the run at the antipodal Positions.\<close>

lemma round_dLat_1: "binary64_round (- (5764607523034235 / 36028797018963968)) = - (5764607523034235 / 36028797018963968)"
proof -
  have "binary64_round (- (5764607523034235 / 36028797018963968)) = of_int (-5764607523034235) * 2 powr of_int (-55)"
    by (rule binary64_round_eq) (simp_all add: powr_minus)
  then show ?thesis by (simp add: powr_minus)
qed

lemma round_dLat_2: "binary64_round (- (5097525520634492532924351705425 / 10141204801825835211973625643008)) = - (2263756080649101 / 4503599627370496)"
proof -
  have "binary64_round (- (5097525520634492532924351705425 / 10141204801825835211973625643008)) = of_int (-4527512161298202) * 2 powr of_int (-53)"
    by (rule binary64_round_eq) (simp_all add: powr_minus)
  then show ?thesis by (simp add: powr_minus)
qed

lemma round_dLat_3: "binary64_round (- (754585360216367 / 270215977642229760)) = - (6439128407179665 / 2305843009213693952)"
proof -
  have "binary64_round (- (754585360216367 / 270215977642229760)) = of_int (-6439128407179665) * 2 powr of_int (-61)"
    by (rule binary64_round_eq) (simp_all add: powr_minus)
  then show ?thesis by (simp add: powr_minus)
qed

lemma round_dLon_1: "binary64_round (180) = 180"
proof -
  have "binary64_round (180) = of_int (6333186975989760) * 2 powr of_int (-45)"
    by (rule binary64_round_eq) (simp_all add: powr_minus)
  then show ?thesis by (simp add: powr_minus)
qed

lemma round_dLon_2: "binary64_round (39792587355159975 / 70368744177664) = 4974073419394997 / 8796093022208"
proof -
  have "binary64_round (39792587355159975 / 70368744177664) = of_int (4974073419394997) * 2 powr of_int (-43)"
    by (rule binary64_round_eq) (simp_all add: powr_minus)
  then show ?thesis by (simp add: powr_minus)
qed

lemma round_dLon_3: "binary64_round (4974073419394997 / 1583296743997440) = 884279719003555 / 281474976710656"
proof -
  have "binary64_round (4974073419394997 / 1583296743997440) = of_int (7074237752028440) * 2 powr of_int (-51)"
    by (rule binary64_round_eq) (simp_all add: powr_minus)
  then show ?thesis by (simp add: powr_minus)
qed

lemma round_half_dLat: "binary64_round (- (6439128407179665 / 4611686018427387904)) = - (6439128407179665 / 4611686018427387904)"
proof -
  have "binary64_round (- (6439128407179665 / 4611686018427387904)) = of_int (-6439128407179665) * 2 powr of_int (-62)"
    by (rule binary64_round_eq) (simp_all add: powr_minus)
  then show ?thesis by (simp add: powr_minus)
qed

lemma round_half_dLon: "binary64_round (884279719003555 / 562949953421312) = 884279719003555 / 562949953421312"
proof -
  have "binary64_round (884279719003555 / 562949953421312) = of_int (7074237752028440) * 2 powr of_int (-52)"
    by (rule binary64_round_eq) (simp_all add: powr_minus)
  then show ?thesis by (simp add: powr_minus)
qed

lemma round_lat1_1: "binary64_round (5097525520634492532924351705425 / 20282409603651670423947251286016) = 2263756080649101 / 9007199254740992"
proof -
  have "binary64_round (5097525520634492532924351705425 / 20282409603651670423947251286016) = of_int (4527512161298202) * 2 powr of_int (-54)"
    by (rule binary64_round_eq) (simp_all add: powr_minus)
  then show ?thesis by (simp add: powr_minus)
qed

lemma round_lat1_2: "binary64_round (754585360216367 / 540431955284459520) = 6439128407179665 / 4611686018427387904"
proof -
  have "binary64_round (754585360216367 / 540431955284459520) = of_int (6439128407179665) * 2 powr of_int (-62)"
    by (rule binary64_round_eq) (simp_all add: powr_minus)
  then show ?thesis by (simp add: powr_minus)
qed

lemma round_lat2_1: "binary64_round (- (5097525520634492532924351705425 / 20282409603651670423947251286016)) = - (2263756080649101 / 9007199254740992)"
proof -
  have "binary64_round (- (5097525520634492532924351705425 / 20282409603651670423947251286016)) = of_int (-4527512161298202) * 2 powr of_int (-54)"
    by (rule binary64_round_eq) (simp_all add: powr_minus)
  then show ?thesis by (simp add: powr_minus)
qed

lemma round_lat2_2: "binary64_round (- (754585360216367 / 540431955284459520)) = - (6439128407179665 / 4611686018427387904)"
proof -
  have "binary64_round (- (754585360216367 / 540431955284459520)) = of_int (-6439128407179665) * 2 powr of_int (-62)"
    by (rule binary64_round_eq) (simp_all add: powr_minus)
  then show ?thesis by (simp add: powr_minus)
qed

lemma round_sin_sin: "binary64_round (2591396731238151695373435182161 / 1329227995784915872903807060280344576) = 4603245307134343 / 2361183241434822606848"
proof -
  have "binary64_round (2591396731238151695373435182161 / 1329227995784915872903807060280344576) = of_int (4603245307134343) * 2 powr of_int (-71)"
    by (rule binary64_round_eq) (simp_all add: powr_minus)
  then show ?thesis by (simp add: powr_minus)
qed

lemma round_cos_cos: "binary64_round (20282370062075572681895628256225 / 20282409603651670423947251286016) = 9007181694753707 / 9007199254740992"
proof -
  have "binary64_round (20282370062075572681895628256225 / 20282409603651670423947251286016) = of_int (9007181694753707) * 2 powr of_int (-53)"
    by (rule binary64_round_eq) (simp_all add: powr_minus)
  then show ?thesis by (simp add: powr_minus)
qed

lemma round_one: "binary64_round (1) = 1"
proof -
  have "binary64_round (1) = of_int (4503599627370496) * 2 powr of_int (-52)"
    by (rule binary64_round_eq) (simp_all add: powr_minus)
  then show ?thesis by (simp add: powr_minus)
qed

lemma round_cos_cos_1: "binary64_round (9007181694753707 / 9007199254740992) = 9007181694753707 / 9007199254740992"
proof -
  have "binary64_round (9007181694753707 / 9007199254740992) = of_int (9007181694753707) * 2 powr of_int (-53)"
    by (rule binary64_round_eq) (simp_all add: powr_minus)
  then show ?thesis by (simp add: powr_minus)
qed

lemma round_a: "binary64_round (2361183241434822902151 / 2361183241434822606848) = 4503599627370497 / 4503599627370496"
proof -
  have "binary64_round (2361183241434822902151 / 2361183241434822606848) = of_int (4503599627370497) * 2 powr of_int (-52)"
    by (rule binary64_round_eq) (simp_all add: powr_minus)
  then show ?thesis by (simp add: powr_minus)
qed

lemma round_1_minus_a: "binary64_round (- (1 / 4503599627370496)) = - (1 / 4503599627370496)"
proof -
  have "binary64_round (- (1 / 4503599627370496)) = of_int (-4503599627370496) * 2 powr of_int (-104)"
    by (rule binary64_round_eq) (simp_all add: powr_minus)
  then show ?thesis by (simp add: powr_minus)
qed

lemma round_sin_half_dLat:
  "binary64_round (- sin (6439128407179665 / 4611686018427387904)) = - (1609781578736119 / 1152921504606846976)"
proof -
  let ?q = "6439128407179665 / 4611686018427387904 :: real"
  have "\<bar>sin ?q - (?q - ?q ^ 3 / 6 + ?q ^ 5 / 120)\<bar> \<le> \<bar>?q\<bar> ^ 6 / fact 6"
    using sin_poly_bound[of ?q 6] unfolding sin_poly_6 .
  then have "\<bar>- sin ?q - (- (?q - ?q ^ 3 / 6 + ?q ^ 5 / 120))\<bar> \<le> \<bar>?q\<bar> ^ 6 / fact 6"
    by (simp add: abs_minus_commute)
  then have "binary64_round (- sin ?q) = of_int (-6439126314944476) * 2 powr of_int (-62)"
    by (rule binary64_round_near) (simp_all add: powr_minus power_divide fact_numeral)
  then show ?thesis by (simp add: powr_minus)
qed

lemma round_cos_lat:
  "binary64_round (cos (6439128407179665 / 4611686018427387904)) = 4503595237371535 / 4503599627370496"
proof -
  let ?q = "6439128407179665 / 4611686018427387904 :: real"
  have "\<bar>cos ?q - (1 - ?q ^ 2 / 2 + ?q ^ 4 / 24)\<bar> \<le> \<bar>?q\<bar> ^ 6 / fact 6"
    using cos_poly_bound[of ?q 6] unfolding cos_poly_6 .
  then have "binary64_round (cos ?q) = of_int (9007190474743070) * 2 powr of_int (-53)"
    by (rule binary64_round_near) (simp_all add: powr_minus power_divide fact_numeral)
  then show ?thesis by (simp add: powr_minus)
qed

lemma sin_half_PI_near_1: "1 - 1 / 2 ^ 55 < sin (884279719003555 / 562949953421312 :: real)"
proof -
  let ?x = "884279719003555 / 562949953421312 :: real"
  have "\<bar>sin ?x - (?x - ?x ^ 3 / 6 + ?x ^ 5 / 120 - ?x ^ 7 / 5040 + ?x ^ 9 / 362880 - ?x ^ 11 / 39916800 + ?x ^ 13 / 6227020800 - ?x ^ 15 / 1307674368000 + ?x ^ 17 / 355687428096000 - ?x ^ 19 / 121645100408832000 + ?x ^ 21 / 51090942171709440000)\<bar> \<le> \<bar>?x\<bar> ^ 22 / fact 22"
    using sin_poly_bound[of ?x 22] unfolding sin_poly_22 .
  then have "(?x - ?x ^ 3 / 6 + ?x ^ 5 / 120 - ?x ^ 7 / 5040 + ?x ^ 9 / 362880 - ?x ^ 11 / 39916800 + ?x ^ 13 / 6227020800 - ?x ^ 15 / 1307674368000 + ?x ^ 17 / 355687428096000 - ?x ^ 19 / 121645100408832000 + ?x ^ 21 / 51090942171709440000) - \<bar>?x\<bar> ^ 22 / fact 22 \<le> sin ?x"
    by (simp only: abs_le_iff) linarith
  moreover have "1 - 1 / 2 ^ 55 < (?x - ?x ^ 3 / 6 + ?x ^ 5 / 120 - ?x ^ 7 / 5040 + ?x ^ 9 / 362880 - ?x ^ 11 / 39916800 + ?x ^ 13 / 6227020800 - ?x ^ 15 / 1307674368000 + ?x ^ 17 / 355687428096000 - ?x ^ 19 / 121645100408832000 + ?x ^ 21 / 51090942171709440000) - \<bar>?x\<bar> ^ 22 / fact 22"
    by (simp add: power_divide fact_numeral)
  ultimately show ?thesis by linarith
qed

lemma round_sin_half_dLon: "binary64_round (sin (884279719003555 / 562949953421312)) = 1"
proof (cases "sin (884279719003555 / 562949953421312 :: real) = 1")
  case True
  have "binary64_round 1 = of_int (4503599627370496) * 2 powr of_int (-52)"
    by (rule binary64_round_eq) (simp_all add: powr_minus)
  then show ?thesis using True by (simp add: powr_minus)
next
  case False
  then have lt: "sin (884279719003555 / 562949953421312 :: real) < 1" using sin_le_one[of "884279719003555 / 562949953421312"] by linarith
  have gt: "1 - 1 / 2 ^ 55 < sin (884279719003555 / 562949953421312 :: real)" by (rule sin_half_PI_near_1)
  then have pos: "0 < sin (884279719003555 / 562949953421312 :: real)" by simp
  have "binary64_round (sin (884279719003555 / 562949953421312)) = of_int (9007199254740992) * 2 powr of_int (-53)"
  proof (rule binary64_round_eq)
    show "2 ^ 52 \<le> \<bar>sin (884279719003555 / 562949953421312 :: real)\<bar> / 2 powr of_int (-53)"
      using gt pos by (simp add: powr_minus abs_of_pos)
    show "\<bar>sin (884279719003555 / 562949953421312 :: real)\<bar> / 2 powr of_int (-53) < 2 ^ 53"
      using lt pos by (simp add: powr_minus abs_of_pos)
    show "\<bar>sin (884279719003555 / 562949953421312 :: real) / 2 powr of_int (-53) - of_int 9007199254740992\<bar> < 1 / 2"
      using gt lt by (simp add: powr_minus abs_less_iff)
  qed
  then show ?thesis by (simp add: powr_minus)
qed

lemmas antipodal_roundings =
  round_dLat_1 round_dLat_2 round_dLat_3 round_dLon_1 round_dLon_2 round_dLon_3
  round_half_dLat round_half_dLon round_lat1_1 round_lat1_2 round_lat2_1 round_lat2_2
  round_sin_sin round_cos_cos round_one round_cos_cos_1 round_a round_1_minus_a
  round_sin_half_dLat round_cos_lat round_sin_half_dLon

lemma antipodal_computed_a:
  "computed_a binary64 (Num double_0_08) (Num 0) (Num (- double_0_08)) (Num 180) =
     Num (4503599627370497 / 4503599627370496)"
  by (simp add: computed_a_def Let_def binary64_def double_0_08_def antipodal_roundings)

lemma antipodal_distance_NaN:
  "calculateDistance_in binary64 (Num double_0_08) (Num 0) (Num (- double_0_08)) (Num 180) = NaN"
  unfolding calculateDistance_in_cases antipodal_computed_a
  by (simp add: binary64_def round_1_minus_a)

text \<open>Rounding keeps the sign.\<close>

lemma round_to_even_sign:
  assumes "1 \<le> \<bar>y\<bar>"
  shows "(round_to_even y < 0) = (y < 0)"
proof (cases "y < 0")
  case True
  with assms have "y \<le> - 1" by simp
  then have "\<lfloor>y\<rfloor> \<le> - 1" by (simp add: floor_le_iff)
  moreover have "\<not> y - of_int \<lfloor>y\<rfloor> < 1 / 2 \<Longrightarrow> \<lfloor>y\<rfloor> < - 1"
  proof -
    assume "\<not> y - of_int \<lfloor>y\<rfloor> < 1 / 2"
    then have "of_int \<lfloor>y\<rfloor> + 1 / 2 \<le> y" by simp
    with \<open>y \<le> - 1\<close> have "of_int \<lfloor>y\<rfloor> < (- 1 :: real)" by linarith
    then show ?thesis by linarith
  qed
  ultimately have "round_to_even y < 0"
    by (auto simp: round_to_even_def Let_def)
  with True show ?thesis by simp
next
  case False
  with assms have "1 \<le> y" by simp
  then have "1 \<le> \<lfloor>y\<rfloor>" by (simp add: le_floor_iff)
  then have "0 < round_to_even y" by (auto simp: round_to_even_def Let_def)
  with False show ?thesis by simp
qed

lemma binary64_round_sign: "(binary64_round x < 0) = (x < 0)"
proof (cases "x = 0")
  case True
  then show ?thesis by (simp add: binary64_round_def)
next
  case False
  define e where "e = \<lfloor>log 2 \<bar>x\<bar>\<rfloor> - 52"
  have u: "0 < (2::real) powr of_int e" by simp
  have "2 powr of_int \<lfloor>log 2 \<bar>x\<bar>\<rfloor> \<le> \<bar>x\<bar>"
    using False floor_log_eq_powr_iff[of "\<bar>x\<bar>" 2 "\<lfloor>log 2 \<bar>x\<bar>\<rfloor>"] by simp
  moreover have "(2::real) powr of_int \<lfloor>log 2 \<bar>x\<bar>\<rfloor> = 2 ^ 52 * 2 powr of_int e"
  proof -
    have "of_int \<lfloor>log 2 \<bar>x\<bar>\<rfloor> = 52 + (of_int e :: real)" by (simp add: e_def)
    then show ?thesis by (simp add: powr_add)
  qed
  ultimately have "2 ^ 52 * 2 powr of_int e \<le> \<bar>x\<bar>" by simp
  then have "2 ^ 52 \<le> \<bar>x\<bar> / 2 powr of_int e" using u by (simp add: pos_le_divide_eq)
  moreover have "(1::real) \<le> 2 ^ 52" by simp
  ultimately have "1 \<le> \<bar>x\<bar> / 2 powr of_int e" by linarith
  moreover have "\<bar>x / 2 powr of_int e\<bar> = \<bar>x\<bar> / 2 powr of_int e" by (simp add: abs_divide)
  ultimately have "1 \<le> \<bar>x / 2 powr of_int e\<bar>" by simp
  then have "(round_to_even (x / 2 powr of_int e) < 0) = (x / 2 powr of_int e < 0)"
    by (rule round_to_even_sign)
  also have "\<dots> = (x < 0)" using u by (simp add: divide_less_0_iff)
  finally have s: "(round_to_even (x / 2 powr of_int e) < 0) = (x < 0)" .
  have "binary64_round x = of_int (round_to_even (x / 2 powr of_int e)) * 2 powr of_int e"
    using False by (simp add: binary64_round_def Let_def e_def)
  then have "(binary64_round x < 0) = (of_int (round_to_even (x / 2 powr of_int e)) < (0::real))"
    using u by (simp add: mult_less_0_iff)
  with s show ?thesis by simp
qed

lemma sign_of_difference_binary64: "sign_of_difference binary64"
  by (simp add: sign_of_difference_def binary64_def binary64_round_sign)

text \<open>
  The claim C2 fails as stated. In double arithmetic, at the Position \<open>(0.08, 0)\<close> and its
  antipode \<open>(-0.08, 180)\<close>, the sum \<open>a\<close> is rounded to \<open>1 + 2\<^sup>-\<^sup>5\<^sup>2\<close>, so \<open>1 - a\<close> is negative,
  \<open>Math.sqrt(1 - a)\<close> is NaN and the routine returns NaN, not the great-circle distance
  \<open>6371 pi\<close> km.
\<close>

theorem antipodal_distance_counterexample:
  "computed_a binary64 (Num double_0_08) (Num 0) (Num (- double_0_08)) (Num 180) =
     Num (4503599627370497 / 4503599627370496) \<and>
   calculateDistance_in binary64 (Num double_0_08) (Num 0) (Num (- double_0_08)) (Num 180) = NaN \<and>
   haversine_spec double_0_08 0 (- double_0_08) 180 = 6371 * pi"
  using antipodal_computed_a antipodal_distance_NaN antipodal_haversine_spec by simp

text \<open>
  C2, as amended. The distance function evaluates the formula of the specification
  operation by operation in the arithmetic of the runtime: latitudes and longitudes
  converted from degrees to radians, \<open>a = sin\<^sup>2(\<Delta>lat/2) + cos(lat1) cos(lat2) sin\<^sup>2(\<Delta>lon/2)\<close>,
  \<open>distance = R 2 atan2(\<surd>a, \<surd>(1-a))\<close> with \<open>R = 6371\<close>. In exact arithmetic the result is
  the haversine distance in kilometres for every pair of Positions. In a runtime that
  rounds, the result is NaN when the computed \<open>a\<close> is NaN or negative or the rounded
  \<open>1 - a\<close> is negative, and the rounded \<open>R 2 atan2(\<surd>a, \<surd>(1-a))\<close> of the computed \<open>a\<close>
  otherwise.
\<close>

theorem calculateDistance_in_haversine:
  "calculateDistance_in exact_runtime (Num lat1) (Num lon1) (Num lat2) (Num lon2) =
     Num (haversine_spec lat1 lon1 lat2 lon2) \<and>
   computed_a exact_runtime (Num lat1) (Num lon1) (Num lat2) (Num lon2) =
     Num (haversine_a lat1 lon1 lat2 lon2) \<and>
   calculateDistance_in rt x1 y1 x2 y2 =
     (case computed_a rt x1 y1 x2 y2 of
        NaN \<Rightarrow> NaN
      | Num a \<Rightarrow>
          if a < 0 \<or> rt_round rt (1 - a) < 0 then NaN
          else Num (rt_round rt (6371 * rt_round rt (2 *
                 rt_atan2 rt (rt_round rt (sqrt a)) (rt_round rt (sqrt (rt_round rt (1 - a))))))))"
  using calculateDistance_in_exact[of lat1 lon1 lat2 lon2]
    computed_a_exact[of lat1 lon1 lat2 lon2] calculateDistance_in_cases[of rt x1 y1 x2 y2]
    calculateDistance_is_haversine[of lat1 lon1 lat2 lon2]
  by simp

section \<open>Facts about the identifiers\<close>

declare Number_toString.simps [simp del]

lemma Number_toString_nonempty: "Number_toString n \<noteq> []"
  by (subst Number_toString.simps) simp

lemma Number_toString_nonempty': "[] \<noteq> Number_toString n"
  using Number_toString_nonempty[of n] by (rule not_sym)

lemma of_char_digit_char: "d < 10 \<Longrightarrow> of_char (digit_char d) = 48 + d"
  by (simp add: digit_char_def)

lemma digit_char_inj: "a < 10 \<Longrightarrow> b < 10 \<Longrightarrow> digit_char a = digit_char b \<Longrightarrow> a = b"
proof -
  assume a: "a < 10" and b: "b < 10" and e: "digit_char a = digit_char b"
  have "(48::nat) + a = of_char (digit_char a)" using a by (simp only: of_char_digit_char)
  also have "\<dots> = of_char (digit_char b)" by (simp only: e)
  also have "\<dots> = 48 + b" using b by (simp only: of_char_digit_char)
  finally show "a = b" by simp
qed

text \<open>Two clock values give the same identifier only when they are equal.\<close>

lemma Number_toString_inj: "Number_toString m = Number_toString n \<Longrightarrow> m = n"
proof (induction m arbitrary: n rule: Number_toString.induct)
  case (1 m)
  show ?case
  proof (cases "m < 10")
    case True
    then have m: "Number_toString m = [digit_char m]" by (subst Number_toString.simps) simp
    have n10: "n < 10"
    proof (rule ccontr)
      assume "\<not> n < 10"
      then have "Number_toString n = Number_toString (n div 10) @ [digit_char (n mod 10)]"
        by (subst Number_toString.simps) simp
      with m "1.prems" show False
        by (simp add: Number_toString_nonempty Number_toString_nonempty')
    qed
    then have "Number_toString n = [digit_char n]" by (subst Number_toString.simps) simp
    with m "1.prems" True n10 show ?thesis by (simp add: digit_char_inj)
  next
    case False
    then have m: "Number_toString m = Number_toString (m div 10) @ [digit_char (m mod 10)]"
      by (subst Number_toString.simps) simp
    have n10: "\<not> n < 10"
    proof
      assume "n < 10"
      then have "Number_toString n = [digit_char n]" by (subst Number_toString.simps) simp
      with m "1.prems" show False
        by (simp add: Number_toString_nonempty Number_toString_nonempty')
    qed
    then have n: "Number_toString n = Number_toString (n div 10) @ [digit_char (n mod 10)]"
      by (subst Number_toString.simps) simp
    from m n "1.prems" have eq: "Number_toString (m div 10) = Number_toString (n div 10)"
      and d: "digit_char (m mod 10) = digit_char (n mod 10)" by simp_all
    from "1.IH"[OF False eq] have "m div 10 = n div 10" .
    moreover from d have "m mod 10 = n mod 10" by (intro digit_char_inj) simp_all
    ultimately show ?thesis by (metis div_mult_mod_eq)
  qed
qed

section \<open>Facts about the handler and the queue\<close>

lemma hazard_alert_cases:
  "hazard_alert cur now data s =
     (if admissible cur data
      then (Normal, fetchHazards (setAlerts (\<lambda>prev. prev @ [alertWithId now data]) s))
      else if cur \<noteq> None \<and> data_location data = None then (Throw TypeError, s)
      else (Normal, s))"
  by (simp add: hazard_alert_def admissible_def Let_def split: option.splits)

lemma alerts_fetchHazards: "alerts (fetchHazards s) = alerts s"
  by (simp add: fetchHazards_def)

lemma alerts_setAlerts: "alerts (setAlerts f s) = f (alerts s)"
  by (simp add: setAlerts_def)

lemma alerts_dismissAlert:
  "alerts (dismissAlert i s) = filter (\<lambda>alert. alert_id alert \<noteq> i) (alerts s)"
  by (simp add: dismissAlert_def setAlerts_def)

lemma alerts_admitted:
  "admissible cur data \<Longrightarrow>
     alerts (snd (hazard_alert cur now data s)) = alerts s @ [alertWithId now data]"
  by (simp add: hazard_alert_cases alerts_fetchHazards alerts_setAlerts)

lemma admissible_near_event: "admissible (Some scenario_position) near_event"
  using distance_scenario_near by (simp add: admissible_def scenario_position_def near_event_def)

lemma not_admissible_far_event: "\<not> admissible (Some scenario_position) far_event"
  using distance_scenario_far by (simp add: admissible_def scenario_position_def far_event_def)

lemma scenario_near:
  "hazard_alert (Some scenario_position) now near_event initial_Dashboard =
     (Normal, initial_Dashboard\<lparr>alerts := [alertWithId now near_event], getHazards_requests := 1\<rparr>)"
  by (simp add: hazard_alert_cases admissible_near_event fetchHazards_def setAlerts_def
      initial_Dashboard_def)

lemma scenario_far:
  "hazard_alert (Some scenario_position) now far_event initial_Dashboard =
     (Normal, initial_Dashboard)"
proof -
  have "data_location far_event \<noteq> None" by (simp add: far_event_def)
  then show ?thesis by (simp add: hazard_alert_cases not_admissible_far_event)
qed

lemma boundary_admitted:
  "admissible (Some \<lparr>lat = 0, lon = 0\<rparr>)
     \<lparr>data_location = Some \<lparr>lat = 540 / (6371 * pi), lon = 0\<rparr>, data_fields = []\<rparr>"
  by (simp add: admissible_def distance_exactly_3)


text \<open>
  The claim C3 fails as stated: with a Position known, the handler evaluates
  \<open>data.location.lat\<close> on a payload without \<open>location\<close> and throws.
\<close>

theorem missing_location_throws_counterexample:
  "hazard_alert (Some scenario_position) 1700000000000 malformed_event initial_Dashboard =
     (Throw TypeError, initial_Dashboard)"
  by (simp add: hazard_alert_def malformed_event_def)

text \<open>
  C3, as amended. For every inbound event whose payload lacks the location field the
  event is not admitted and the Dashboard state (the alert queue included) is left as it
  was; the handler returns normally when no Position is known and throws \<open>TypeError\<close>
  when a Position is known.
\<close>

theorem missing_location_not_admitted:
  "data_location data = None \<Longrightarrow>
     hazard_alert cur now data s = ((if cur = None then Normal else Throw TypeError), s)"
  by (simp add: hazard_alert_def split: option.splits)

theorem missing_location_not_admitted_witness:
  "data_location malformed_event = None \<and>
   hazard_alert None 1700000000000 malformed_event initial_Dashboard = (Normal, initial_Dashboard) \<and>
   hazard_alert (Some scenario_position) 1700000000000 malformed_event initial_Dashboard =
     (Throw TypeError, initial_Dashboard)"
proof -
  have h: "data_location malformed_event = None" by (simp add: malformed_event_def)
  show ?thesis
    using h missing_location_not_admitted[OF h, of None 1700000000000 initial_Dashboard]
      missing_location_not_admitted[OF h, of "Some scenario_position" 1700000000000 initial_Dashboard]
    by simp
qed

text \<open>
  C6. A call of the handler that enqueues an AlertRecord issues exactly one refresh
  request (\<open>fetchHazards\<close>), a call that does not enqueue issues none, and the
  settlement of a refresh request, its failure included, leaves the alert queue
  unchanged (and issues no further request).
\<close>

theorem enqueue_triggers_one_refresh:
  "(case hazard_alert cur now data s of (c, s') \<Rightarrow>
      (if admissible cur data
       then alerts s' = alerts s @ [alertWithId now data] \<and>
            getHazards_requests s' = getHazards_requests s + 1
       else alerts s' = alerts s \<and> getHazards_requests s' = getHazards_requests s)) \<and>
   alerts (fetchHazards_settled response s) = alerts s \<and>
   getHazards_requests (fetchHazards_settled response s) = getHazards_requests s"
  by (simp add: hazard_alert_cases fetchHazards_def setAlerts_def fetchHazards_settled_def
      split: settled.splits)

lemma digit_chars:
  "digit_char 0 = CHR ''0''" "digit_char (Suc 0) = CHR ''1''" "digit_char 2 = CHR ''2''"
  "digit_char 3 = CHR ''3''" "digit_char 4 = CHR ''4''" "digit_char 5 = CHR ''5''"
  "digit_char 6 = CHR ''6''" "digit_char 7 = CHR ''7''" "digit_char 8 = CHR ''8''"
  "digit_char 9 = CHR ''9''"
  by (simp_all add: digit_char_def char_of_def bit_iff_odd)

lemma Number_toString_example: "Number_toString 1700000000000 = ''1700000000000''"
  by (simp add: Number_toString.simps digit_chars)

lemma two_arrivals_same_instant:
  "alerts (snd (hazard_alert (Some scenario_position) n near_event
        (snd (hazard_alert (Some scenario_position) n near_event initial_Dashboard))))
   = [alertWithId n near_event, alertWithId n near_event]"
  unfolding alerts_admitted[OF admissible_near_event] by (simp add: initial_Dashboard_def)

text \<open>
  An arrival whose clock value differs from the clock values of all records in the
  queue gets an id that no record in the queue has.
\<close>

lemma other_clock_fresh_id:
  assumes "\<forall>a \<in> set (alerts s). \<exists>t. t \<noteq> now \<and> alert_id a = Number_toString t"
  shows "Number_toString now \<notin> alert_id ` set (alerts s)"
proof
  assume "Number_toString now \<in> alert_id ` set (alerts s)"
  then obtain a where a: "a \<in> set (alerts s)" and e: "alert_id a = Number_toString now" by auto
  from assms a obtain t where t: "t \<noteq> now" and "alert_id a = Number_toString t" by blast
  with e have "Number_toString t = Number_toString now" by simp
  then have "t = now" by (rule Number_toString_inj)
  with t show False by simp
qed

text \<open>
  C4 on the code: two admitted arrivals handled at the same value of \<open>Date.now()\<close>
  receive the same id, so the id of the second record is not distinct from the ids
  already enqueued.
\<close>

theorem same_instant_same_id:
  "map alert_id
     (alerts (snd (hazard_alert (Some scenario_position) 1700000000000 near_event
        (snd (hazard_alert (Some scenario_position) 1700000000000 near_event initial_Dashboard)))))
   = [''1700000000000'', ''1700000000000'']"
  unfolding two_arrivals_same_instant by (simp add: alertWithId_def Number_toString_example)

text \<open>
  What \<open>dismissAlert\<close> does on every queue: no record of the id is left, every other
  record is kept in order, an id that is absent changes nothing, and a second call
  changes nothing.
\<close>

lemma dismissAlert_filter:
  "i \<notin> alert_id ` set (alerts (dismissAlert i s)) \<and>
   filter (\<lambda>a. alert_id a \<noteq> i) (alerts (dismissAlert i s)) = filter (\<lambda>a. alert_id a \<noteq> i) (alerts s) \<and>
   (i \<notin> alert_id ` set (alerts s) \<longrightarrow> dismissAlert i s = s) \<and>
   dismissAlert i (dismissAlert i s) = dismissAlert i s"
proof -
  have absent: "filter (\<lambda>a. alert_id a \<noteq> i) xs = xs" if "i \<notin> alert_id ` set xs" for i xs
    using that by (induction xs) auto
  have 1: "i \<notin> alert_id ` set (alerts (dismissAlert i s))"
    by (auto simp: alerts_dismissAlert)
  have 2: "filter (\<lambda>a. alert_id a \<noteq> i) (alerts (dismissAlert i s)) =
      filter (\<lambda>a. alert_id a \<noteq> i) (alerts s)"
    by (simp add: alerts_dismissAlert)
  have 3: "i \<notin> alert_id ` set (alerts s) \<longrightarrow> dismissAlert i s = s"
    by (simp add: dismissAlert_def setAlerts_def absent)
  have 4: "dismissAlert i (dismissAlert i s) = dismissAlert i s"
    by (simp add: dismissAlert_def setAlerts_def)
  from 1 2 3 4 show ?thesis by blast
qed

text \<open>
  C5 on the code: the queue holds the record admitted at \<open>Date.now() = 1700000000000\<close>;
  a second event is admitted in the same millisecond and its id is dismissed. Both
  records carry that id, so both are removed: the queue is empty, not the queue of one
  record that it was before the enqueue.
\<close>

theorem dismiss_after_enqueue_same_instant:
  "alerts (snd (hazard_alert (Some scenario_position) 1700000000000 near_event initial_Dashboard))
     = [alertWithId 1700000000000 near_event] \<and>
   alerts (dismissAlert (Number_toString 1700000000000)
     (snd (hazard_alert (Some scenario_position) 1700000000000 near_event
        (snd (hazard_alert (Some scenario_position) 1700000000000 near_event initial_Dashboard)))))
     = []"
  unfolding alerts_dismissAlert two_arrivals_same_instant
  by (simp add: alerts_admitted admissible_near_event initial_Dashboard_def alertWithId_def)

section \<open>Facts about the sorted listing\<close>

lemma mset_sort_insert: "mset (sort_insert c x ys) = add_mset x (mset ys)"
  by (induction ys) simp_all

lemma set_sort_insert: "set (sort_insert c x ys) = insert x (set ys)"
  by (induction ys) auto

lemma sorted_sort_insert:
  assumes "sorted (map k ys)" and "\<forall>y \<in> set ys. (SortCompare c x y < 0) = (k x < k y)"
  shows "sorted (map k (sort_insert c x ys))"
  using assms
proof (induction ys)
  case Nil
  then show ?case by simp
next
  case (Cons y ys)
  show ?case
  proof (cases "SortCompare c x y < 0")
    case True
    with Cons.prems have "k x \<le> k y" by (simp add: less_imp_le)
    with True Cons.prems show ?thesis by (auto simp: order_trans[of "k x" "k y"])
  next
    case False
    with Cons.prems have "k y \<le> k x" by (simp add: not_less)
    with False Cons show ?thesis by (auto simp: set_sort_insert)
  qed
qed

lemma mset_foldl_sort_insert:
  "mset (foldl (\<lambda>acc x. sort_insert c x acc) acc xs) = mset acc + mset xs"
  by (induction xs arbitrary: acc) (simp_all add: mset_sort_insert)

lemma sorted_foldl_sort_insert:
  assumes "sorted (map k acc)"
    and "\<forall>x \<in> set xs \<union> set acc. \<forall>y \<in> set xs \<union> set acc. (SortCompare c x y < 0) = (k x < k y)"
  shows "sorted (map k (foldl (\<lambda>acc x. sort_insert c x acc) acc xs))"
  using assms
proof (induction xs arbitrary: acc)
  case Nil
  then show ?case by simp
next
  case (Cons x xs)
  have "sorted (map k (sort_insert c x acc))"
    using Cons.prems by (intro sorted_sort_insert) auto
  moreover have "\<forall>a \<in> set xs \<union> set (sort_insert c x acc).
      \<forall>b \<in> set xs \<union> set (sort_insert c x acc). (SortCompare c a b < 0) = (k a < k b)"
    using Cons.prems(2) by (auto simp: set_sort_insert)
  ultimately show ?case using Cons.IH by simp
qed

lemma mset_Array_sort: "mset (Array_sort c xs) = mset xs"
  by (simp add: Array_sort_def mset_foldl_sort_insert)

lemma sorted_Array_sort:
  assumes "\<forall>x \<in> set xs. \<forall>y \<in> set xs. (SortCompare c x y < 0) = (k x < k y)"
  shows "sorted (map k (Array_sort c xs))"
  unfolding Array_sort_def using assms by (intro sorted_foldl_sort_insert) auto

lemma set_Array_sort: "set (Array_sort c xs) = set xs"
  using mset_Array_sort[of c xs] by (metis set_mset_mset)

text \<open>The sign of the comparator on doubles.\<close>

lemma SortCompare_num_sub:
  assumes "sign_of_difference rt" "is_double rt u" "is_double rt v"
    and that: "f x = u" "g y = v"
  shows "(SortCompare (\<lambda>a b. num_sub rt (f a) (g b)) x y < 0) = (num_value (f x) < num_value (g y))"
proof -
  from assms(2,3) obtain s t where u: "u = Num (rt_round rt s)" and v: "v = Num (rt_round rt t)"
    by (auto simp: is_double_def)
  from assms(1) have "(rt_round rt (rt_round rt s - rt_round rt t) < 0) = (rt_round rt s < rt_round rt t)"
    by (simp add: sign_of_difference_def)
  then show ?thesis using that by (simp add: SortCompare_def u v)
qed

lemma distance_from_in_is_double:
  "distance_from_in rt cl x \<noteq> NaN \<Longrightarrow> is_double rt (distance_from_in rt cl x)"
  unfolding distance_from_in_def HazardList_calculateDistance_in_eq
  using calculateDistance_in_is_double by blast

lemma SortCompare_distance:
  assumes "sign_of_difference rt"
    and "distance_from_in rt cl a \<noteq> NaN" "distance_from_in rt cl b \<noteq> NaN"
  shows "(SortCompare (compareHazards rt getTime (Some cl)) a b < 0) =
         (num_value (distance_from_in rt cl a) < num_value (distance_from_in rt cl b))"
proof -
  have c: "compareHazards rt getTime (Some cl) =
      (\<lambda>a b. num_sub rt (distance_from_in rt cl a) (distance_from_in rt cl b))"
    by (simp add: compareHazards_def distance_from_in_def fun_eq_iff)
  show ?thesis unfolding c
    by (rule SortCompare_num_sub[OF assms(1) distance_from_in_is_double[OF assms(2)]
          distance_from_in_is_double[OF assms(3)]]) simp_all
qed

lemma SortCompare_time:
  assumes "sign_of_difference rt"
    and "is_double rt (getTime (timestamp a))" "is_double rt (getTime (timestamp b))"
  shows "(SortCompare (compareHazards rt getTime None) a b < 0) =
         (- num_value (getTime (timestamp a)) < - num_value (getTime (timestamp b)))"
proof -
  have c: "compareHazards rt getTime None =
      (\<lambda>a b. num_sub rt (getTime (timestamp b)) (getTime (timestamp a)))"
    by (simp add: compareHazards_def fun_eq_iff)
  have "(SortCompare (\<lambda>b a. num_sub rt (getTime (timestamp b)) (getTime (timestamp a))) b a < 0) =
      (num_value (getTime (timestamp b)) < num_value (getTime (timestamp a)))"
    by (rule SortCompare_num_sub[OF assms(1) assms(3) assms(2)]) simp_all
  then show ?thesis unfolding c by (simp add: SortCompare_def)
qed

lemma number_le_num_value:
  "u \<noteq> NaN \<Longrightarrow> v \<noteq> NaN \<Longrightarrow> number_le u v = (num_value u \<le> num_value v)"
  by (cases u; cases v) simp_all

lemma sortedHazards_eq:
  "sortedHazards rt getTime cur hazardsRef h =
     (length h, h @ [Array_sort (compareHazards rt getTime cur) (h ! hazardsRef)])"
  by (simp add: sortedHazards_def spread_def sort_in_place_def)

lemma is_double_not_NaN: "is_double rt v \<Longrightarrow> v \<noteq> NaN"
  by (auto simp: is_double_def)

lemma sign_of_difference_exact: "sign_of_difference exact_runtime"
  by (simp add: sign_of_difference_def exact_runtime_def)

lemma is_double_exact: "is_double exact_runtime (Num t)"
  by (simp add: is_double_def exact_runtime_def)

lemma distance_from_in_exact:
  "distance_from_in exact_runtime cl x =
     Num (calculateDistance (lat cl) (lon cl) (lat (location x)) (lon (location x)))"
  by (simp add: distance_from_in_def HazardList_calculateDistance_in_eq calculateDistance_in_exact)

lemma distance_from_newer:
  "distance_from_in exact_runtime scenario_position newer_hazard =
     Num (6371 * ((40.01 - 40.0) * pi / 180))"
  unfolding distance_from_in_exact
  by (simp add: scenario_position_def newer_hazard_def calculateDistance_same_meridian)

lemma distance_from_older:
  "distance_from_in exact_runtime scenario_position older_hazard =
     Num (6371 * ((40.10 - 40.0) * pi / 180))"
  unfolding distance_from_in_exact
  by (simp add: scenario_position_def older_hazard_def calculateDistance_same_meridian)

lemma getTime_examples:
  "example_getTime (timestamp older_hazard) = Num 1704067200000"
  "example_getTime (timestamp newer_hazard) = Num 1704153600000"
  "example_getTime (timestamp undated_hazard) = NaN"
  by (simp_all add: example_getTime_def older_hazard_def newer_hazard_def undated_hazard_def)

lemma compareHazards_distance_example:
  "compareHazards exact_runtime example_getTime (Some scenario_position) newer_hazard older_hazard =
     Num (6371 * ((40.01 - 40.0) * pi / 180) - 6371 * ((40.10 - 40.0) * pi / 180))"
  using distance_from_newer distance_from_older
  by (simp add: compareHazards_def distance_from_in_def exact_runtime_def)

lemma listing_by_distance:
  "sortedHazards exact_runtime example_getTime (Some scenario_position) 0
     [[older_hazard, newer_hazard]] =
     (1, [[older_hazard, newer_hazard], [newer_hazard, older_hazard]])"
  using pi_gt_zero
  by (simp add: sortedHazards_eq Array_sort_def SortCompare_def compareHazards_distance_example)

lemma round_time_older: "binary64_round (1704067200000) = 1704067200000"
proof -
  have "binary64_round (1704067200000) = of_int (6979859251200000) * 2 powr of_int (-12)"
    by (rule binary64_round_eq) (simp_all add: powr_minus)
  then show ?thesis by (simp add: powr_minus)
qed

lemma round_time_newer: "binary64_round (1704153600000) = 1704153600000"
proof -
  have "binary64_round (1704153600000) = of_int (6980213145600000) * 2 powr of_int (-12)"
    by (rule binary64_round_eq) (simp_all add: powr_minus)
  then show ?thesis by (simp add: powr_minus)
qed

lemma round_time_difference: "binary64_round (- 86400000) = - 86400000"
proof -
  have "binary64_round (- 86400000) = of_int (-5798205849600000) * 2 powr of_int (-26)"
    by (rule binary64_round_eq) (simp_all add: powr_minus)
  then show ?thesis by (simp add: powr_minus)
qed

lemma is_double_binary64_times:
  "is_double binary64 (example_getTime (timestamp older_hazard))"
  "is_double binary64 (example_getTime (timestamp newer_hazard))"
  unfolding getTime_examples is_double_def
  using round_time_older round_time_newer by (auto simp: binary64_def intro: sym)

lemma listing_by_time_binary64:
  "sortedHazards binary64 example_getTime None 0 [[older_hazard, newer_hazard]] =
     (1, [[older_hazard, newer_hazard], [newer_hazard, older_hazard]])"
  by (simp add: sortedHazards_eq Array_sort_def SortCompare_def compareHazards_def
      getTime_examples binary64_def round_time_difference)

lemma num_sub_NaN: "num_sub rt v NaN = NaN" "num_sub rt NaN v = NaN"
  by (cases v; simp)+

lemma antipodal_hazard_distance:
  "distance_from_in binary64 antipode_position antipodal_hazard = NaN"
  by (simp add: distance_from_in_def HazardList_calculateDistance_in_eq antipode_position_def
      antipodal_hazard_def antipodal_distance_NaN)

lemma listing_antipodal:
  "sortedHazards binary64 example_getTime (Some antipode_position) 0
     [[antipodal_hazard, newer_hazard]] =
     (1, [[antipodal_hazard, newer_hazard], [antipodal_hazard, newer_hazard]])"
proof -
  have "compareHazards binary64 example_getTime (Some antipode_position) newer_hazard
      antipodal_hazard = NaN"
    using antipodal_hazard_distance
    by (simp add: compareHazards_def distance_from_in_def num_sub_NaN)
  then show ?thesis by (simp add: sortedHazards_eq Array_sort_def SortCompare_def)
qed

text \<open>
  C10, as amended. For every list of hazards the listing is a fresh array holding a
  permutation of the input, and the input array is not changed. When a Position is
  known and no computed distance is NaN, the listing is ordered by non-decreasing
  computed distance from the Position. When no Position is known and every timestamp
  is read as a date, the listing is ordered by most recent timestamp first. Both hold
  in every arithmetic whose subtraction gives a negative result exactly when the first
  operand is the smaller, as double arithmetic does.
\<close>

theorem sortedHazards_listing:
  assumes "hazardsRef < length h"
    and "sortedHazards rt getTime currentLocation hazardsRef h = (listing, h')"
  shows "h' ! hazardsRef = h ! hazardsRef \<and> take (length h) h' = h \<and> listing \<noteq> hazardsRef \<and>
     mset (h' ! listing) = mset (h ! hazardsRef) \<and>
     (\<forall>cl. currentLocation = Some cl \<and> sign_of_difference rt \<and>
           (\<forall>x \<in> set (h ! hazardsRef). distance_from_in rt cl x \<noteq> NaN) \<longrightarrow>
        by_distance rt cl (h' ! listing)) \<and>
     (currentLocation = None \<and> sign_of_difference rt \<and>
      (\<forall>x \<in> set (h ! hazardsRef). is_double rt (getTime (timestamp x))) \<longrightarrow>
        newest_first getTime (h' ! listing))"
proof -
  let ?c = "compareHazards rt getTime currentLocation"
  from assms(2) have l: "listing = length h" and h': "h' = h @ [Array_sort ?c (h ! hazardsRef)]"
    by (simp_all add: sortedHazards_eq)
  have r: "h' ! listing = Array_sort ?c (h ! hazardsRef)" by (simp add: l h')
  have 1: "h' ! hazardsRef = h ! hazardsRef" using assms(1) by (simp add: h' nth_append)
  have 2: "take (length h) h' = h" by (simp add: h')
  have 3: "listing \<noteq> hazardsRef" using assms(1) l by simp
  have 4: "mset (h' ! listing) = mset (h ! hazardsRef)" by (simp add: r mset_Array_sort)
  have 5: "by_distance rt cl (h' ! listing)"
    if cur: "currentLocation = Some cl" and sg: "sign_of_difference rt"
      and v: "\<forall>x \<in> set (h ! hazardsRef). distance_from_in rt cl x \<noteq> NaN" for cl
  proof -
    have "sorted (map (\<lambda>x. num_value (distance_from_in rt cl x)) (h' ! listing))"
      unfolding r cur using sg v by (intro sorted_Array_sort) (simp add: SortCompare_distance)
    then have "sorted_wrt (\<lambda>x y. num_value (distance_from_in rt cl x) \<le> num_value (distance_from_in rt cl y))
        (h' ! listing)"
      by (simp add: sorted_map)
    moreover have "\<forall>x \<in> set (h' ! listing). distance_from_in rt cl x \<noteq> NaN"
      using v by (simp add: r set_Array_sort)
    ultimately show ?thesis unfolding by_distance_def
      by (elim sorted_wrt_mono_rel[rotated]) (simp add: number_le_num_value)
  qed
  have 6: "newest_first getTime (h' ! listing)"
    if cur: "currentLocation = None" and sg: "sign_of_difference rt"
      and v: "\<forall>x \<in> set (h ! hazardsRef). is_double rt (getTime (timestamp x))"
  proof -
    have "sorted (map (\<lambda>x. - num_value (getTime (timestamp x))) (h' ! listing))"
      unfolding r cur using sg v by (intro sorted_Array_sort) (simp add: SortCompare_time)
    then have "sorted_wrt (\<lambda>x y. num_value (getTime (timestamp y)) \<le> num_value (getTime (timestamp x)))
        (h' ! listing)"
      by (simp add: sorted_map)
    moreover have "\<forall>x \<in> set (h' ! listing). getTime (timestamp x) \<noteq> NaN"
      using v by (auto simp: r set_Array_sort dest: is_double_not_NaN)
    ultimately show ?thesis unfolding newest_first_def
      by (elim sorted_wrt_mono_rel[rotated]) (simp add: number_le_num_value)
  qed
  from 1 2 3 4 5 6 show ?thesis by blast
qed

text \<open>
  The hypotheses of \<open>sortedHazards_listing\<close> hold on an array of two hazards: with a Position
  in exact arithmetic, and without a Position in double arithmetic.
\<close>

theorem sortedHazards_listing_witness:
  "(0::nat) < length [[older_hazard, newer_hazard]] \<and>
   sign_of_difference exact_runtime \<and>
   sortedHazards exact_runtime example_getTime (Some scenario_position) 0
     [[older_hazard, newer_hazard]] =
     (1, [[older_hazard, newer_hazard], [newer_hazard, older_hazard]]) \<and>
   list_all (\<lambda>x. distance_from_in exact_runtime scenario_position x \<noteq> NaN)
     [older_hazard, newer_hazard] \<and>
   by_distance exact_runtime scenario_position [newer_hazard, older_hazard] \<and>
   sign_of_difference binary64 \<and>
   sortedHazards binary64 example_getTime None 0 [[older_hazard, newer_hazard]] =
     (1, [[older_hazard, newer_hazard], [newer_hazard, older_hazard]]) \<and>
   list_all (\<lambda>x. is_double binary64 (example_getTime (timestamp x)))
     [older_hazard, newer_hazard] \<and>
   newest_first example_getTime [newer_hazard, older_hazard] \<and>
   mset [newer_hazard, older_hazard] = mset [older_hazard, newer_hazard]"
proof -
  have len: "(0::nat) < length [[older_hazard, newer_hazard]]" by simp
  have nn: "\<forall>x \<in> set ([[older_hazard, newer_hazard]] ! 0).
      distance_from_in exact_runtime scenario_position x \<noteq> NaN"
    by (simp add: distance_from_in_exact)
  have dd: "\<forall>x \<in> set ([[older_hazard, newer_hazard]] ! 0).
      is_double binary64 (example_getTime (timestamp x))"
    by (simp add: is_double_binary64_times)
  from sortedHazards_listing[OF len listing_by_distance] sign_of_difference_exact nn
  have d: "by_distance exact_runtime scenario_position [newer_hazard, older_hazard]"
    and m: "mset [newer_hazard, older_hazard] = mset [older_hazard, newer_hazard]"
    by simp_all
  from sortedHazards_listing[OF len listing_by_time_binary64] sign_of_difference_binary64 dd
  have t: "newest_first example_getTime [newer_hazard, older_hazard]"
    by simp
  show ?thesis
    using len listing_by_distance listing_by_time_binary64 d m t sign_of_difference_exact
      sign_of_difference_binary64 nn dd
    by simp
qed

text \<open>
  The claim C10 fails as stated. Without a Position, a hazard whose timestamp is no
  date leaves the listing of two hazards as it came, and no order of the two is newest
  first. With a Position, the computed distance of an exactly antipodal hazard is NaN,
  the listing is left as it came, and no order of the two is by non-decreasing distance.
\<close>

theorem listing_order_counterexample:
  "sortedHazards binary64 example_getTime None 0 [[undated_hazard, newer_hazard]] =
     (1, [[undated_hazard, newer_hazard], [undated_hazard, newer_hazard]]) \<and>
   \<not> newest_first example_getTime [undated_hazard, newer_hazard] \<and>
   \<not> newest_first example_getTime [newer_hazard, undated_hazard] \<and>
   sortedHazards binary64 example_getTime (Some antipode_position) 0
     [[antipodal_hazard, newer_hazard]] =
     (1, [[antipodal_hazard, newer_hazard], [antipodal_hazard, newer_hazard]]) \<and>
   distance_from_in binary64 antipode_position antipodal_hazard = NaN \<and>
   \<not> by_distance binary64 antipode_position [antipodal_hazard, newer_hazard] \<and>
   \<not> by_distance binary64 antipode_position [newer_hazard, antipodal_hazard]"
proof -
  have 1: "sortedHazards binary64 example_getTime None 0 [[undated_hazard, newer_hazard]] =
     (1, [[undated_hazard, newer_hazard], [undated_hazard, newer_hazard]])"
    by (simp add: sortedHazards_eq Array_sort_def SortCompare_def compareHazards_def
        getTime_examples)
  have 2: "\<not> newest_first example_getTime [undated_hazard, newer_hazard]"
    and 3: "\<not> newest_first example_getTime [newer_hazard, undated_hazard]"
    by (simp_all add: newest_first_def getTime_examples)
  have 5: "\<not> by_distance binary64 antipode_position [antipodal_hazard, newer_hazard]"
    and 6: "\<not> by_distance binary64 antipode_position [newer_hazard, antipodal_hazard]"
    by (simp_all add: by_distance_def antipodal_hazard_distance)
  from 1 2 3 listing_antipodal antipodal_hazard_distance 5 6 show ?thesis by simp
qed

section \<open>Facts about the SocketIO effect\<close>

lemma delivering_sockets_append:
  "delivering_sockets (w\<lparr>sockets := sockets w @ [s]\<rparr>) =
     delivering_sockets w @ (if delivering s then [length (sockets w)] else [])"
  by (auto simp: delivering_sockets_def nth_append intro: filter_cong)

lemma delivering_sockets_disconnect:
  "delivering_sockets (disconnect i w) = filter (\<lambda>j. j \<noteq> i) (delivering_sockets w)"
  by (auto simp: delivering_sockets_def disconnect_def nth_list_update intro!: filter_cong)

lemma delivering_sockets_cong:
  "sockets w' = sockets w \<Longrightarrow> delivering_sockets w' = delivering_sockets w"
  by (simp add: delivering_sockets_def)

lemma delivering_sockets_update [simp]:
  "delivering_sockets (w\<lparr>cleanup := c\<rparr>) = delivering_sockets w"
  "delivering_sockets (w\<lparr>deps := d\<rparr>) = delivering_sockets w"
  "delivering_sockets (w\<lparr>phase := p\<rparr>) = delivering_sockets w"
  by (simp_all add: delivering_sockets_def)

lemma run_cleanup_closes: "channel_inv w \<Longrightarrow> delivering_sockets (run_cleanup w) = []"
  by (cases "cleanup w")
     (simp_all add: channel_inv_def run_cleanup_def delivering_sockets_disconnect)

lemma run_cleanup_fields:
  "cleanup (run_cleanup w) = None" "phase (run_cleanup w) = phase w"
  "deps (run_cleanup w) = deps w" "length (sockets (run_cleanup w)) = length (sockets w)"
  by (cases "cleanup w"; simp add: run_cleanup_def disconnect_def)+

lemma SocketIO_effect_opens:
  assumes "delivering_sockets w = []"
  shows "delivering_sockets (SocketIO_effect token w) =
           (if truthy token then [length (sockets w)] else []) \<and>
         cleanup (SocketIO_effect token w) =
           (if truthy token then Some (length (sockets w)) else None) \<and>
         phase (SocketIO_effect token w) = phase w \<and>
         (truthy token \<longrightarrow>
            length (sockets w) < length (sockets (SocketIO_effect token w)) \<and>
            Some (auth_token (sockets (SocketIO_effect token w) ! length (sockets w))) = token)"
  using assms
  by (cases token)
     (simp_all add: SocketIO_effect_def truthy_def io_def delivering_sockets_append)

lemma channel_inv_after_effect:
  assumes "delivering_sockets w = []"
  shows "channel_inv ((SocketIO_effect token w)\<lparr>deps := (token, loc), phase := Mounted\<rparr>)"
  using SocketIO_effect_opens[OF assms, of token]
  by (simp add: channel_inv_def)

lemma channel_inv_not_mounted:
  "channel_inv w \<Longrightarrow> phase w \<noteq> Mounted \<Longrightarrow> cleanup w = None \<and> delivering_sockets w = []"
  by (cases "cleanup w") (simp_all add: channel_inv_def)

lemma channel_inv_react: "channel_inv w \<Longrightarrow> channel_inv (react w e)"
proof (cases e)
  case (Render token loc)
  assume inv: "channel_inv w"
  show ?thesis
  proof (cases "phase w")
    case Unrendered
    with inv have "delivering_sockets w = []" by (simp add: channel_inv_not_mounted)
    then show ?thesis using Render Unrendered by (simp add: channel_inv_after_effect)
  next
    case Mounted
    have "delivering_sockets (run_cleanup w) = []" using inv by (rule run_cleanup_closes)
    then have "channel_inv ((SocketIO_effect token (run_cleanup w))\<lparr>deps := (token, loc), phase := Mounted\<rparr>)"
      by (rule channel_inv_after_effect)
    moreover have "phase (SocketIO_effect token (run_cleanup w)) = Mounted"
      using SocketIO_effect_opens[OF \<open>delivering_sockets (run_cleanup w) = []\<close>, of token] Mounted
      by (simp add: run_cleanup_fields)
    then have "(SocketIO_effect token (run_cleanup w))\<lparr>deps := (token, loc), phase := Mounted\<rparr> =
        (SocketIO_effect token (run_cleanup w))\<lparr>deps := (token, loc)\<rparr>"
      by (cases "SocketIO_effect token (run_cleanup w)") simp
    ultimately show ?thesis using Render Mounted inv by simp
  next
    case Unmounted
    then show ?thesis using Render inv by simp
  qed
next
  case Unmount
  assume inv: "channel_inv w"
  show ?thesis
  proof (cases "phase w = Mounted")
    case True
    then show ?thesis using Unmount run_cleanup_closes[OF inv]
      by (simp add: channel_inv_def run_cleanup_fields)
  next
    case False
    with inv have "cleanup w = None \<and> delivering_sockets w = []" by (rule channel_inv_not_mounted)
    then show ?thesis using Unmount False by (cases "phase w") (simp_all add: channel_inv_def)
  qed
qed

lemma channel_inv_initial: "channel_inv initial_Channel"
  by (simp add: channel_inv_def initial_Channel_def delivering_sockets_def)

lemma channel_inv_foldl: "channel_inv w \<Longrightarrow> channel_inv (foldl react w events)"
  by (induction events arbitrary: w) (simp_all add: channel_inv_react)

lemma channel_inv_session: "channel_inv (session events)"
  unfolding session_def by (rule channel_inv_foldl) (rule channel_inv_initial)

lemma channel_inv_at_most_one: "channel_inv w \<Longrightarrow> length (delivering_sockets w) \<le> 1"
  by (cases "cleanup w") (simp_all add: channel_inv_def)

lemma react_Unmount_closes: "channel_inv w \<Longrightarrow> delivering_sockets (react w Unmount) = []"
  using channel_inv_not_mounted[of w] run_cleanup_closes[of w]
  by (cases "phase w") simp_all

lemma react_falsy_closes:
  assumes "channel_inv w" "\<not> truthy token"
  shows "delivering_sockets (react w (Render token loc)) = []"
proof (cases "phase w")
  case Unrendered
  with assms(1) have "delivering_sockets w = []" by (simp add: channel_inv_not_mounted)
  then show ?thesis using SocketIO_effect_opens[of w token] assms(2) Unrendered by simp
next
  case Mounted
  show ?thesis
  proof (cases "deps w = (token, loc)")
    case True
    then have "\<not> truthy (fst (deps w))" using assms(2) by simp
    then have "delivering_sockets w = []" using assms(1)
      by (cases "cleanup w") (simp_all add: channel_inv_def)
    then show ?thesis using True Mounted by simp
  next
    case False
    then show ?thesis
      using SocketIO_effect_opens[OF run_cleanup_closes[OF assms(1)], of token] assms(2) Mounted
      by simp
  qed
next
  case Unmounted
  with assms(1) show ?thesis by (simp add: channel_inv_not_mounted)
qed

text \<open>
  C8. In every state that renders and an unmount can lead to, at most one socket
  delivers events, and it is the socket created with the token of the last run of the
  effect. Unmounting the component and rendering without a token (logout) leave no
  socket delivering; when the effect runs again (token change) the cleanup function has
  closed the old socket before the new one is created.
\<close>

theorem channel_closed_before_reopen:
  "length (delivering_sockets (session events)) \<le> 1 \<and>
   delivering_sockets (react (session events) Unmount) = [] \<and>
   delivering_sockets (react (session events) (Render None loc)) = [] \<and>
   delivering_sockets (run_cleanup (session events)) = [] \<and>
   length (delivering_sockets (SocketIO_effect token (run_cleanup (session events)))) \<le> 1 \<and>
   (case cleanup (session events) of
      None \<Rightarrow> delivering_sockets (session events) = []
    | Some socket \<Rightarrow> delivering_sockets (session events) = [socket] \<and>
        Some (auth_token (sockets (session events) ! socket)) = fst (deps (session events)))"
proof -
  have inv: "channel_inv (session events)" by (rule channel_inv_session)
  have 1: "length (delivering_sockets (session events)) \<le> 1"
    using inv by (rule channel_inv_at_most_one)
  have 2: "delivering_sockets (react (session events) Unmount) = []"
    using inv by (rule react_Unmount_closes)
  have 3: "delivering_sockets (react (session events) (Render None loc)) = []"
    using inv by (rule react_falsy_closes) (simp add: truthy_def)
  have 4: "delivering_sockets (run_cleanup (session events)) = []"
    using inv by (rule run_cleanup_closes)
  have 5: "length (delivering_sockets (SocketIO_effect token (run_cleanup (session events)))) \<le> 1"
    using SocketIO_effect_opens[OF 4, of token] by simp
  have 6: "(case cleanup (session events) of
      None \<Rightarrow> delivering_sockets (session events) = []
    | Some socket \<Rightarrow> delivering_sockets (session events) = [socket] \<and>
        Some (auth_token (sockets (session events) ! socket)) = fst (deps (session events)))"
    using inv by (cases "cleanup (session events)") (simp_all add: channel_inv_def)
  from 1 2 3 4 5 6 show ?thesis by blast
qed

section \<open>Facts about the timers of an alert\<close>

lemma arrive_near:
  "hazard_alert (Some scenario_position) 1700000000000 near_event initial_Dashboard =
     (Normal, \<lparr>hazards = [], loading = True,
        alerts = [\<lparr>alert_id = ''1700000000000'', alert_data = near_event\<rparr>],
        getHazards_requests = 1, toasts = []\<rparr>)"
  by (simp add: hazard_alert_cases admissible_near_event fetchHazards_def setAlerts_def
      alertWithId_def Number_toString_example initial_Dashboard_def)

lemmas page_defs = render_def Let_def AlertNotification_effect_def AlertNotification_cleanup_def
  setTimeout_def clearTimeout_def handleDismiss_def setIsVisible_def dismissAlert_def setAlerts_def

text \<open>
  Left alone, the alert is removed 10300 ms after its arrival: the auto-dismiss timeout
  runs at 10000 ms and \<open>onDismiss\<close> 300 ms later.
\<close>

lemma no_click_auto_expiry:
  "map_option (\<lambda>p. (fired p, alerts (dashboard p), timeouts p))
     (exec initial_Page no_click) =
   Some ([(1700000000100, SlideIn ''1700000000000''),
          (1700000010000, AutoDismiss ''1700000000000''),
          (1700000010300, OnDismiss ''1700000000000'')], [], [])"
  by (simp add: no_click_def initial_Page_def arrive_near page_defs)

text \<open>
  C7 on the code: the user dismisses the alert 9800 ms after its arrival. The component
  stays mounted until \<open>onDismiss\<close> runs 300 ms later, so the auto-dismiss timeout is still
  pending at 10000 ms and runs: \<open>handleDismiss\<close> is called a second time and \<open>onDismiss\<close>
  (\<open>dismissAlert\<close>) runs twice, at 10100 ms and at 10300 ms.
\<close>

theorem late_click_double_dismissal:
  "map_option (\<lambda>p. (fired p, alerts (dashboard p), timeouts p))
     (exec initial_Page late_click) =
   Some ([(1700000000100, SlideIn ''1700000000000''),
          (1700000010000, AutoDismiss ''1700000000000''),
          (1700000010100, OnDismiss ''1700000000000''),
          (1700000010300, OnDismiss ''1700000000000'')], [], [])"
  by (simp add: late_click_def initial_Page_def arrive_near page_defs)

end
